theory Spec2Isabelle
  imports Main
begin

section \<open>Python values, exceptions and objects\<close>

text \<open>
  The script \<^verbatim>\<open>django_run.py\<close> raises one exception of its own
  (\<^verbatim>\<open>raise Exception("Force rollback after signal")\<close>, line 59); the others come from the
  interpreter (attribute lookup, the iteration protocol), from the data layer (a uniqueness
  violation) and from the framework while the module is loaded (settings that are not
  configured, an application registry that is not ready, a model class outside every
  installed application). \<open>KeyboardInterrupt\<close> stands for the classes that derive from
  \<^verbatim>\<open>BaseException\<close> only, so that the clause \<^verbatim>\<open>except Exception\<close> of line 60 is a test
  on the class and not a catch-all.
\<close>

datatype exc =
    Exception string
  | IntegrityError
  | AttributeError
  | TypeError
  | StopIteration
  | ImproperlyConfigured
  | AppRegistryNotReady
  | RuntimeError
  | KeyboardInterrupt

fun is_Exception :: "exc \<Rightarrow> bool" where
  "is_Exception KeyboardInterrupt = False"
| "is_Exception (Exception m) = True"
| "is_Exception IntegrityError = True"
| "is_Exception AttributeError = True"
| "is_Exception TypeError = True"
| "is_Exception StopIteration = True"
| "is_Exception ImproperlyConfigured = True"
| "is_Exception AppRegistryNotReady = True"
| "is_Exception RuntimeError = True"

text \<open>A dict with string keys and integer values, as \<^verbatim>\<open>{'length': self.length}\<close>.\<close>

type_synonym dict = "string \<rightharpoonup> int"

text \<open>
  Objects live in a heap and are named by their address. A \<^verbatim>\<open>Rectangle\<close> instance is its
  attribute dictionary. A generator object made by \<^verbatim>\<open>Rectangle.__iter__\<close> holds the
  \<^verbatim>\<open>self\<close> it was called on and the point of the body (lines 74 and 75) where it is suspended.
  The heap is a list and a new object goes to its end, so an allocation never overwrites
  an object.
\<close>

datatype frame = Created | Yielded_length | Yielded_width | Closed

datatype pyobj = Instance dict | Generator nat frame

type_synonym heap = "pyobj list"

definition deref :: "heap \<Rightarrow> nat \<Rightarrow> pyobj option" where
  "deref h a = (if a < length h then Some (h ! a) else None)"

section \<open>The class Rectangle (lines 68 to 75)\<close>

text \<open>
  \<^verbatim>\<open>
  def __init__(self, length: int, width: int):
      self.length = length
      self.width = width
  \<close>
  The two assignments store into the attribute dictionary of the new instance; the
  annotations are not checked, and there is no other statement in the body.
\<close>

definition Rectangle_init :: "dict \<Rightarrow> int \<Rightarrow> int \<Rightarrow> dict" where
  "Rectangle_init self l w = (self(''length'' \<mapsto> l))(''width'' \<mapsto> w)"

text \<open>The call \<^verbatim>\<open>Rectangle(l, w)\<close>: a fresh instance, initialised, and its address.\<close>

definition Rectangle :: "int \<Rightarrow> int \<Rightarrow> heap \<Rightarrow> nat \<times> heap" where
  "Rectangle l w h = (length h, h @ [Instance (Rectangle_init Map.empty l w)])"

text \<open>
  Reading \<^verbatim>\<open>self.length\<close>: a lookup in the instance's dictionary, \<^verbatim>\<open>AttributeError\<close>
  when the name is not there or the object has no such attribute.
\<close>

definition getattr :: "heap \<Rightarrow> nat \<Rightarrow> string \<Rightarrow> exc + int" where
  "getattr h a k =
     (case deref h a of
        Some (Instance d) \<Rightarrow> (case d k of Some v \<Rightarrow> Inr v | None \<Rightarrow> Inl AttributeError)
      | Some (Generator s f) \<Rightarrow> Inl AttributeError
      | None \<Rightarrow> Inl AttributeError)"

text \<open>
  The statement \<^verbatim>\<open>obj.name = value\<close>. The class body has no \<^verbatim>\<open>__slots__\<close> and defines no
  \<^verbatim>\<open>__setattr__\<close>, so on an instance it is the assignment inherited from \<^verbatim>\<open>object\<close>: the
  value is stored in the instance's dictionary, as the two assignments of \<^verbatim>\<open>__init__\<close>
  are. A generator object has no attribute dictionary and refuses the assignment.
\<close>

definition py_setattr :: "heap \<Rightarrow> nat \<Rightarrow> string \<Rightarrow> int \<Rightarrow> exc + heap" where
  "py_setattr h a k v =
     (case deref h a of
        Some (Instance d) \<Rightarrow> Inr (h[a := Instance (d(k \<mapsto> v))])
      | Some (Generator s f) \<Rightarrow> Inl AttributeError
      | None \<Rightarrow> Inl AttributeError)"

text \<open>
  \<^verbatim>\<open>
  def __iter__(self):
      yield {'length': self.length}
      yield {'width': self.width}
  \<close>
  Calling a generator function runs none of its body: it returns a new generator object,
  suspended before the first statement.
\<close>

definition Rectangle_iter :: "nat \<Rightarrow> heap \<Rightarrow> nat \<times> heap" where
  "Rectangle_iter self h = (length h, h @ [Generator self Created])"

text \<open>
  One \<^verbatim>\<open>yield {k: self.k}\<close>: the attribute is read when the generator is resumed, the
  generator is left suspended after the yield; an exception raised in the body closes it.
\<close>

definition yield_attr :: "heap \<Rightarrow> nat \<Rightarrow> nat \<Rightarrow> string \<Rightarrow> frame \<Rightarrow> (exc + dict) \<times> heap" where
  "yield_attr h g self k f =
     (case getattr h self k of
        Inr v \<Rightarrow> (Inr [k \<mapsto> v], h[g := Generator self f])
      | Inl e \<Rightarrow> (Inl e, h[g := Generator self Closed]))"

fun resume :: "heap \<Rightarrow> nat \<Rightarrow> nat \<Rightarrow> frame \<Rightarrow> (exc + dict) \<times> heap" where
  "resume h g self Created = yield_attr h g self ''length'' Yielded_length"
| "resume h g self Yielded_length = yield_attr h g self ''width'' Yielded_width"
| "resume h g self Yielded_width = (Inl StopIteration, h[g := Generator self Closed])"
| "resume h g self Closed = (Inl StopIteration, h)"

text \<open>
  The built-in \<^verbatim>\<open>next(g)\<close>: resumes the generator at address \<open>g\<close>; \<^verbatim>\<open>TypeError\<close> for an
  object that is not an iterator.
\<close>

definition py_next :: "nat \<Rightarrow> heap \<Rightarrow> (exc + dict) \<times> heap" where
  "py_next g h =
     (case deref h g of
        Some (Generator self f) \<Rightarrow> resume h g self f
      | Some (Instance d) \<Rightarrow> (Inl TypeError, h)
      | None \<Rightarrow> (Inl TypeError, h))"

text \<open>The number of times a generator can still be resumed before it is closed.\<close>

fun frame_rank :: "frame \<Rightarrow> nat" where
  "frame_rank Created = 3"
| "frame_rank Yielded_length = 2"
| "frame_rank Yielded_width = 1"
| "frame_rank Closed = 0"

definition remaining :: "heap \<Rightarrow> nat \<Rightarrow> nat" where
  "remaining h g =
     (case deref h g of
        Some (Generator self f) \<Rightarrow> frame_rank f
      | Some (Instance d) \<Rightarrow> 0
      | None \<Rightarrow> 0)"

lemma py_next_item_decreases:
  "py_next g h = (Inr item, h') \<Longrightarrow> remaining h' g < remaining h g"
proof -
  assume a: "py_next g h = (Inr item, h')"
  show ?thesis
  proof (cases "deref h g")
    case None
    with a show ?thesis by (simp add: py_next_def)
  next
    case (Some ob)
    then have lt: "g < length h" by (simp add: deref_def split: if_splits)
    show ?thesis
    proof (cases ob)
      case (Instance d)
      with Some a show ?thesis by (simp add: py_next_def)
    next
      case (Generator self f)
      with Some a lt show ?thesis
        by (cases f)
           (auto simp: py_next_def yield_attr_def remaining_def deref_def split: sum.splits)
    qed
  qed
qed

text \<open>
  The statement \<^verbatim>\<open>for item in it: body\<close> over a generator at address \<open>g\<close>: \<^verbatim>\<open>next\<close> is
  called until it raises \<^verbatim>\<open>StopIteration\<close>, which ends the loop; any other exception
  leaves the loop. The body works on a state \<open>s\<close> of its own (what it prints, or the items
  it collects).
\<close>

function for_each :: "nat \<Rightarrow> (dict \<Rightarrow> 's \<Rightarrow> 's) \<Rightarrow> heap \<Rightarrow> 's \<Rightarrow> (exc + unit) \<times> heap \<times> 's" where
  "for_each g body h s =
     (case py_next g h of
        (Inr item, h') \<Rightarrow> for_each g body h' (body item s)
      | (Inl e, h') \<Rightarrow> (if e = StopIteration then (Inr (), h', s) else (Inl e, h', s)))"
  by pat_completeness auto
termination
  by (relation "measure (\<lambda>(g, body, h, s). remaining h g)")
     (auto dest: py_next_item_decreases [OF sym])

declare for_each.simps [simp del]

text \<open>
  Iterating an object to the end and keeping the items in order, as \<^verbatim>\<open>list(obj)\<close> or a
  \<^verbatim>\<open>for\<close> loop that appends each item: \<^verbatim>\<open>iter(obj)\<close> first, then the loop.
\<close>

definition py_list :: "nat \<Rightarrow> heap \<Rightarrow> (exc + dict list) \<times> heap" where
  "py_list obj h =
     (case Rectangle_iter obj h of
        (g, h1) \<Rightarrow>
          (case for_each g (\<lambda>item acc. acc @ [item]) h1 [] of
             (Inr u, h2, items) \<Rightarrow> (Inr items, h2)
           | (Inl e, h2, items) \<Rightarrow> (Inl e, h2)))"

section \<open>Sequences of calls on the heap\<close>

text \<open>
  The class is used through three calls: the constructor, \<^verbatim>\<open>iter\<close> (that is
  \<^verbatim>\<open>Rectangle.__iter__\<close>) and \<^verbatim>\<open>next\<close> on a generator. A client program is a list of
  such calls, in any order and on any addresses; \<open>do_calls\<close> runs it and keeps what each
  call returned or raised.
\<close>

datatype call = Call_Rectangle int int | Call_iter nat | Call_next nat

datatype outcome = Object nat | Item dict | Raised exc

fun do_call :: "call \<Rightarrow> heap \<Rightarrow> outcome \<times> heap" where
  "do_call (Call_Rectangle l w) h = (case Rectangle l w h of (a, h') \<Rightarrow> (Object a, h'))"
| "do_call (Call_iter obj) h = (case Rectangle_iter obj h of (g, h') \<Rightarrow> (Object g, h'))"
| "do_call (Call_next g) h =
     (case py_next g h of (Inr item, h') \<Rightarrow> (Item item, h') | (Inl e, h') \<Rightarrow> (Raised e, h'))"

fun do_calls :: "call list \<Rightarrow> heap \<Rightarrow> outcome list \<times> heap" where
  "do_calls [] h = ([], h)"
| "do_calls (c # cs) h =
     (case do_call c h of (r, h') \<Rightarrow> (case do_calls cs h' of (rs, h'') \<Rightarrow> (r # rs, h'')))"

text \<open>The outcomes, in order, of the occurrences of one call \<open>c\<close> in a program.\<close>

definition outcomes_of :: "call \<Rightarrow> call list \<Rightarrow> heap \<Rightarrow> outcome list" where
  "outcomes_of c cs h = map snd (filter (\<lambda>p. fst p = c) (zip cs (fst (do_calls cs h))))"

text \<open>
  \<^verbatim>\<open>rect = Rectangle(l, w); it1 = iter(rect); it2 = iter(rect)\<close>: two iteration requests
  on the same instance.
\<close>

definition two_iterators :: "int \<Rightarrow> int \<Rightarrow> heap \<Rightarrow> nat \<times> nat \<times> heap" where
  "two_iterators l w h =
     (case Rectangle l w h of
        (rect, h1) \<Rightarrow>
          (case Rectangle_iter rect h1 of
             (it1, h2) \<Rightarrow>
               (case Rectangle_iter rect h2 of
                  (it2, h3) \<Rightarrow> (it1, it2, h3))))"

text \<open>
  The class statement of line 68 has no base class and its body defines neither
  \<^verbatim>\<open>__eq__\<close> nor \<^verbatim>\<open>__hash__\<close>: \<^verbatim>\<open>a == b\<close> on two instances is the comparison inherited
  from \<^verbatim>\<open>object\<close>, which holds exactly when both are the same object.
\<close>

definition py_eq :: "nat \<Rightarrow> nat \<Rightarrow> bool" where
  "py_eq a b = (a = b)"

text \<open>
  What \<open>n\<close> successive \<^verbatim>\<open>next\<close> calls give on a generator suspended at \<open>f\<close>, when the
  attributes of its rectangle are \<open>l\<close> and \<open>w\<close>; it is used to prove the independence of
  two generators.
\<close>

fun trace :: "int \<Rightarrow> int \<Rightarrow> frame \<Rightarrow> nat \<Rightarrow> outcome list" where
  "trace l w f 0 = []"
| "trace l w Created (Suc n) = Item [''length'' \<mapsto> l] # trace l w Yielded_length n"
| "trace l w Yielded_length (Suc n) = Item [''width'' \<mapsto> w] # trace l w Yielded_width n"
| "trace l w Yielded_width (Suc n) = Raised StopIteration # trace l w Closed n"
| "trace l w Closed (Suc n) = Raised StopIteration # trace l w Closed n"

section \<open>The console and the data store\<close>

text \<open>
  A printed line is the list of the values \<^verbatim>\<open>print\<close> renders on it: string literals,
  integers (a thread identifier, a row count), a dict, an exception (printed as its
  message). Line 25, 37 and 64 hold an em dash and an arrow; they are the bytes of their
  UTF-8 encoding. The implicit newline that ends each \<^verbatim>\<open>print\<close> is the end of the line; a
  newline written in a literal is part of the string.
\<close>

datatype tok = S string | N int | D dict | E exc

type_synonym line = "tok list"

definition em_dash :: string where
  "em_dash = [CHR 0xE2, CHR 0x80, CHR 0x94]"

definition rightwards_arrow :: string where
  "rightwards_arrow = [CHR 0xE2, CHR 0x86, CHR 0x92]"

text \<open>
  The state the script acts on. The user table holds the usernames and the profile table
  holds, for each profile row, the username of the user it refers to (the script gives a
  user no other attribute, and the username is unique). \<open>out\<close> is the console, \<open>clock\<close>
  the seconds slept, \<open>thread\<close> the identifier \<^verbatim>\<open>threading.get_ident()\<close> returns, \<open>objects\<close>
  the heap of Python objects.
\<close>

record world =
  users :: "string list"
  profiles :: "string list"
  out :: "line list"
  clock :: nat
  thread :: int
  objects :: heap

text \<open>
  A statement either completes with a value or raises; in both cases the world is as it
  left it (what was printed before an exception stays printed).
\<close>

type_synonym 'a result = "(exc + 'a) \<times> world"

definition and_then :: "'a result \<Rightarrow> ('a \<Rightarrow> world \<Rightarrow> 'b result) \<Rightarrow> 'b result" where
  "and_then m f = (case m of (Inl e, w) \<Rightarrow> (Inl e, w) | (Inr v, w) \<Rightarrow> f v w)"

definition py_print :: "line \<Rightarrow> world \<Rightarrow> world" where
  "py_print l w = w\<lparr>out := out w @ [l]\<rparr>"

definition sleep :: "nat \<Rightarrow> world \<Rightarrow> world" where
  "sleep n w = w\<lparr>clock := clock w + n\<rparr>"

text \<open>
  Modelled from the spec: the data layer behind \<^verbatim>\<open>Profile.objects\<close> is the external
  framework's, not part of the script. The spec describes the profile as a record
  ``holding a one-to-one back-reference to a user-like record'', and names duplicate-key
  violations as the errors of the data layer: creating a second profile for a user raises,
  otherwise the row is added. Counting returns the number of rows.
\<close>

definition Profile_objects_create :: "string \<Rightarrow> world \<Rightarrow> unit result" where
  "Profile_objects_create user w =
     (if user \<in> set (profiles w) then (Inl IntegrityError, w)
      else (Inr (), w\<lparr>profiles := profiles w @ [user]\<rparr>))"

definition Profile_objects_count :: "world \<Rightarrow> int" where
  "Profile_objects_count w = int (length (profiles w))"

section \<open>The three receivers (lines 15 to 19, 29 to 31, 47 to 51)\<close>

definition slow_signal_handler :: "string \<Rightarrow> world \<Rightarrow> unit result" where
  "slow_signal_handler inst w =
     (Inr (),
      py_print [S ''[Signal] Finished processing.'']
        (sleep 3 (py_print [S ''[Signal] Started processing...''] w)))"

definition thread_check :: "string \<Rightarrow> world \<Rightarrow> unit result" where
  "thread_check inst w = (Inr (), py_print [S ''[Signal] Thread ID: '', N (thread w)] w)"

definition create_profile :: "string \<Rightarrow> world \<Rightarrow> unit result" where
  "create_profile inst w =
     and_then (Profile_objects_create inst w)
       (\<lambda>u w'. (Inr (), py_print [S ''[Signal] Profile created inside same transaction''] w'))"

text \<open>
  Each of the three is decorated \<^verbatim>\<open>@receiver(post_save, sender=User)\<close>, so all three are
  connected to the saving of a user, in the order the module defines them.
\<close>

definition post_save_receivers :: "(string \<Rightarrow> world \<Rightarrow> unit result) list" where
  "post_save_receivers = [slow_signal_handler, thread_check, create_profile]"

text \<open>
  Modelled from the spec: signal dispatch and \<^verbatim>\<open>User.objects.create\<close> are the external
  framework's. The spec has ``a notification triggered by a data-write event, handled by
  one or more registered subscriber functions'', the caller relying on the framework ``to
  invoke a registered callback before control returns'', a username whose uniqueness the
  data layer owns, and callback exceptions that propagate to the caller. So: a duplicate
  username raises; otherwise the row is written, then the receivers run one after the
  other in the caller, and the first exception of a receiver ends the dispatch and
  reaches the caller of \<^verbatim>\<open>create\<close>.
\<close>

fun send :: "(string \<Rightarrow> world \<Rightarrow> unit result) list \<Rightarrow> string \<Rightarrow> world \<Rightarrow> unit result" where
  "send [] inst w = (Inr (), w)"
| "send (r # rs) inst w = and_then (r inst w) (\<lambda>u w'. send rs inst w')"

definition User_objects_create :: "string \<Rightarrow> world \<Rightarrow> string result" where
  "User_objects_create username w =
     (if username \<in> set (users w) then (Inl IntegrityError, w)
      else and_then (send post_save_receivers username (w\<lparr>users := users w @ [username]\<rparr>))
             (\<lambda>u w'. (Inr username, w')))"

text \<open>
  Modelled from the spec: \<^verbatim>\<open>transaction.atomic\<close> is the external framework's. The spec
  has ``a block of operations treated atomically by the external data store; failure
  inside it discards all writes made within it'' and ``reverting all writes performed
  within a failed transactional scope''. Whether a write made by a receiver is made
  within the scope of its caller is what the script probes, and the spec leaves the
  answer to the framework: \<open>joined\<close> is that answer. In this script the callers write
  user rows only and the receivers write profile rows only, so a rollback always restores
  the user table, and restores the profile table exactly when \<open>joined\<close> holds. The
  exception that ended the block is raised again after the rollback; the console, the
  clock and the heap are not part of the data store.
\<close>

definition rollback :: "bool \<Rightarrow> world \<Rightarrow> world \<Rightarrow> world" where
  "rollback joined w0 w1 =
     w1\<lparr>users := users w0, profiles := (if joined then profiles w0 else profiles w1)\<rparr>"

definition transaction_atomic :: "bool \<Rightarrow> (world \<Rightarrow> 'a result) \<Rightarrow> world \<Rightarrow> 'a result" where
  "transaction_atomic joined body w =
     (case body w of
        (Inl e, w') \<Rightarrow> (Inl e, rollback joined w w')
      | (Inr v, w') \<Rightarrow> (Inr v, w'))"

text \<open>
  \<^verbatim>\<open>try: body except Exception as e: handler\<close>: the handler runs for an exception whose
  class derives from \<^verbatim>\<open>Exception\<close>; any other one goes on to the caller.
\<close>

definition try_except_Exception ::
  "(world \<Rightarrow> unit result) \<Rightarrow> (exc \<Rightarrow> world \<Rightarrow> unit result) \<Rightarrow> world \<Rightarrow> unit result" where
  "try_except_Exception body handler w =
     (case body w of
        (Inl e, w') \<Rightarrow> (if is_Exception e then handler e w' else (Inl e, w'))
      | (Inr v, w') \<Rightarrow> (Inr v, w'))"

section \<open>The test functions (lines 21 to 25, 33 to 37, 53 to 64, 77 to 82)\<close>

definition test_synchronous_signal :: "world \<Rightarrow> unit result" where
  "test_synchronous_signal w =
     and_then
       (User_objects_create ''sync_test_user''
          (py_print [S ''Creating user...'']
             (py_print [S ''\<newline>=== Test 1: Synchronous Signal ===''] w)))
       (\<lambda>user w'.
          (Inr (),
           py_print [S (''User created successfully '' @ em_dash @ '' after signal completed.\<newline>'')] w'))"

definition test_thread_signal :: "world \<Rightarrow> unit result" where
  "test_thread_signal w =
     and_then
       (User_objects_create ''thread_test_user''
          (py_print [S ''[Main] Thread ID: '', N (thread w)]
             (py_print [S ''\<newline>=== Test 2: Thread Check ===''] w)))
       (\<lambda>user w'.
          (Inr (),
           py_print [S (''Both thread IDs should match '' @ em_dash @ '' same thread.\<newline>'')] w'))"

text \<open>
  Lines 56 to 59, the \<^verbatim>\<open>with transaction.atomic():\<close> statement: the user is created, then
  the \<^verbatim>\<open>raise\<close> of line 59 runs whenever line 57 has returned.
\<close>

definition rollback_block :: "bool \<Rightarrow> world \<Rightarrow> unit result" where
  "rollback_block joined =
     transaction_atomic joined
       (\<lambda>w1. and_then (User_objects_create ''rollback_user'' w1)
               (\<lambda>user w2. (Inl (Exception ''Force rollback after signal''), w2)))"

definition test_transaction_signal :: "bool \<Rightarrow> world \<Rightarrow> unit result" where
  "test_transaction_signal joined w =
     and_then
       (try_except_Exception
          (rollback_block joined)
          (\<lambda>e w1. (Inr (), py_print [S ''[Main] Exception caught:'', E e] w1))
          (py_print [S ''\<newline>=== Test 3: Transaction Behavior ===''] w))
       (\<lambda>u w1.
          (Inr (),
           py_print [S (''If 0 '' @ rightwards_arrow @ '' Signal ran in same transaction.\<newline>'')]
             (py_print [S ''Profiles in DB after rollback:'', N (Profile_objects_count w1)] w1)))"

text \<open>
  Lines 79 to 82: the \<^verbatim>\<open>for\<close> statement calls \<^verbatim>\<open>iter(rect)\<close> once and prints each item;
  \<^verbatim>\<open>print()\<close> then writes an empty line.
\<close>

definition test_rectangle_iteration :: "world \<Rightarrow> unit result" where
  "test_rectangle_iteration w =
     (let w1 = py_print [S ''\<newline>=== Test 4: Custom Rectangle Class ===''] w in
      case Rectangle 10 5 (objects w1) of
        (rect, h1) \<Rightarrow>
          (case Rectangle_iter rect h1 of
             (it, h2) \<Rightarrow>
               (case for_each it (\<lambda>item. py_print [D item]) h2 w1 of
                  (Inr u, h3, w2) \<Rightarrow> (Inr (), py_print [] (w2\<lparr>objects := h3\<rparr>))
                | (Inl e, h3, w2) \<Rightarrow> (Inl e, w2\<lparr>objects := h3\<rparr>))))"

section \<open>The driver (lines 86 to 90) and the module as a program\<close>

definition run_all_tests :: "bool \<Rightarrow> world \<Rightarrow> unit result" where
  "run_all_tests joined w =
     and_then (test_synchronous_signal w)
       (\<lambda>u w1. and_then (test_thread_signal w1)
          (\<lambda>u w2. and_then (test_transaction_signal joined w2)
             (\<lambda>u w3. test_rectangle_iteration w3)))"

text \<open>
  Lines 93 to 97 alone, the statement \<^verbatim>\<open>if __name__ == "__main__":\<close> that ends the
  module; \<open>name\<close> is the value of \<^verbatim>\<open>__name__\<close>. It runs only when every statement before
  it has completed.
\<close>

definition main_block :: "string \<Rightarrow> world \<Rightarrow> unit result" where
  "main_block name w =
     (if name = ''__main__'' then
        (Inr (),
         py_print [S ''    run_all_tests()\<newline>'']
           (py_print [S ''    from yourapp.django_signal_tests import run_all_tests'']
              (py_print [S ''Run these functions individually inside Django shell:\<newline>'']
                 (py_print [S ''>>> Django Signals and Python Custom Class Tests <<<''] w))))
      else (Inr (), w))"

text \<open>
  What the framework finds when the module is loaded: whether its settings are
  configured, whether its application registry has been populated, and the names of the
  installed applications.
\<close>

record django_env =
  settings_configured :: bool
  apps_ready :: bool
  installed_apps :: "string list"

text \<open>
  Modelled from the spec: the import of line 12 and the model class statement of line 44
  are executed by the external framework. The spec names ``missing external
  configuration'' among the errors that are ``uncaught, propagate to the caller/shell'',
  and has the operator import the module ``from within a framework-provided interactive
  shell'', as a module of an application (\<^verbatim>\<open>from yourapp.django_signal_tests import ...\<close>).
  So: importing the user model needs configured settings, a populated application
  registry and the application that holds it among the installed ones; a model class
  statement needs the module it stands in to be an installed application or a module
  below one. A module run as the main program has the name \<^verbatim>\<open>__main__\<close>.
\<close>

definition import_User :: "django_env \<Rightarrow> exc + unit" where
  "import_User env =
     (if settings_configured env then
        (if apps_ready env then
           (if ''django.contrib.auth'' \<in> set (installed_apps env) then Inr ()
            else Inl RuntimeError)
         else Inl AppRegistryNotReady)
      else Inl ImproperlyConfigured)"

definition in_app :: "string \<Rightarrow> string \<Rightarrow> bool" where
  "in_app name app = (name = app \<or> take (length app + 1) name = app @ ''.'')"

definition class_Profile :: "django_env \<Rightarrow> string \<Rightarrow> exc + unit" where
  "class_Profile env name =
     (if list_ex (in_app name) (installed_apps env) then Inr () else Inl RuntimeError)"

text \<open>
  The module as a program, statement by statement: the imports of lines 7 to 12, of which
  the one of line 12 can raise; the three decorated receivers and the function
  definitions, which connect the receivers and cannot raise; the class statement of line
  44; and last the block of lines 93 to 97. An exception ends the program at the
  statement that raised it, with nothing printed.
\<close>

definition run_module :: "django_env \<Rightarrow> string \<Rightarrow> world \<Rightarrow> unit result" where
  "run_module env name w =
     (case import_User env of
        Inl e \<Rightarrow> (Inl e, w)
      | Inr u \<Rightarrow>
          (case class_Profile env name of
             Inl e \<Rightarrow> (Inl e, w)
           | Inr u' \<Rightarrow> main_block name w))"

section \<open>Iteration of a rectangle\<close>

lemma deref_append_new [simp]: "deref (h @ [ob]) (length h) = Some ob"
  by (simp add: deref_def)

lemma deref_append_old [simp]: "a < length h \<Longrightarrow> deref (h @ [ob]) a = deref h a"
  by (simp add: deref_def nth_append)

lemma deref_update_same [simp]: "a < length h \<Longrightarrow> deref (h[a := ob]) a = Some ob"
  by (simp add: deref_def)

lemma deref_update_other [simp]: "a \<noteq> b \<Longrightarrow> deref (h[b := ob]) a = deref h a"
  by (simp add: deref_def)

lemma getattr_Instance:
  "deref h a = Some (Instance d) \<Longrightarrow> d k = Some v \<Longrightarrow> getattr h a k = Inr v"
  by (simp add: getattr_def)

lemma deref_update_Generator:
  "deref h g = Some (Generator s f) \<Longrightarrow> deref h a = Some (Instance d) \<Longrightarrow>
   deref (h[g := Generator s' f']) a = Some (Instance d)"
  by (cases "a = g") auto

lemma deref_update_Generator_same:
  "deref h g = Some (Generator s f) \<Longrightarrow> deref (h[g := ob]) g = Some ob"
  by (simp add: deref_def split: if_splits)

lemma py_next_Created:
  "deref h g = Some (Generator r Created) \<Longrightarrow> deref h r = Some (Instance d) \<Longrightarrow>
   d ''length'' = Some l \<Longrightarrow>
   py_next g h = (Inr [''length'' \<mapsto> l], h[g := Generator r Yielded_length])"
  by (simp add: py_next_def yield_attr_def getattr_Instance)

lemma py_next_Yielded_length:
  "deref h g = Some (Generator r Yielded_length) \<Longrightarrow> deref h r = Some (Instance d) \<Longrightarrow>
   d ''width'' = Some w \<Longrightarrow>
   py_next g h = (Inr [''width'' \<mapsto> w], h[g := Generator r Yielded_width])"
  by (simp add: py_next_def yield_attr_def getattr_Instance)

lemma py_next_Yielded_width:
  "deref h g = Some (Generator r Yielded_width) \<Longrightarrow>
   py_next g h = (Inl StopIteration, h[g := Generator r Closed])"
  by (simp add: py_next_def)

lemma py_next_Closed:
  "deref h g = Some (Generator r Closed) \<Longrightarrow> py_next g h = (Inl StopIteration, h)"
  by (simp add: py_next_def)

lemma for_each_Created:
  assumes g: "deref h g = Some (Generator r Created)"
    and r: "deref h r = Some (Instance d)"
    and l: "d ''length'' = Some l" and w: "d ''width'' = Some w"
  shows "for_each g body h s =
           (Inr (), h[g := Generator r Closed], body [''width'' \<mapsto> w] (body [''length'' \<mapsto> l] s))"
proof -
  let ?h1 = "h[g := Generator r Yielded_length]"
  let ?h2 = "h[g := Generator r Yielded_width]"
  have g1: "deref ?h1 g = Some (Generator r Yielded_length)"
    using g by (rule deref_update_Generator_same)
  have r1: "deref ?h1 r = Some (Instance d)"
    using g r by (rule deref_update_Generator)
  have g2: "deref ?h2 g = Some (Generator r Yielded_width)"
    using g by (rule deref_update_Generator_same)
  have s1: "for_each g body h s = for_each g body ?h1 (body [''length'' \<mapsto> l] s)"
    by (subst for_each.simps) (simp add: py_next_Created [OF g r l])
  have s2: "for_each g body ?h1 (body [''length'' \<mapsto> l] s)
            = for_each g body ?h2 (body [''width'' \<mapsto> w] (body [''length'' \<mapsto> l] s))"
    by (subst for_each.simps) (simp add: py_next_Yielded_length [OF g1 r1 w])
  have s3: "for_each g body ?h2 t = (Inr (), h[g := Generator r Closed], t)" for t
    by (subst for_each.simps) (simp add: py_next_Yielded_width [OF g2])
  show ?thesis by (simp only: s1 s2 s3)
qed

lemma Rectangle_init_length: "Rectangle_init d l w ''length'' = Some l"
  by (simp add: Rectangle_init_def)

lemma Rectangle_init_width: "Rectangle_init d l w ''width'' = Some w"
  by (simp add: Rectangle_init_def)

lemma py_list_Rectangle:
  "deref h r = Some (Instance d) \<Longrightarrow> d ''length'' = Some l \<Longrightarrow> d ''width'' = Some w \<Longrightarrow>
   py_list r h = (Inr [[''length'' \<mapsto> l], [''width'' \<mapsto> w]],
                  h @ [Generator r Closed])"
proof -
  assume r: "deref h r = Some (Instance d)" and l: "d ''length'' = Some l" and w: "d ''width'' = Some w"
  from r have lt: "r < length h" by (simp add: deref_def split: if_splits)
  have g: "deref (h @ [Generator r Created]) (length h) = Some (Generator r Created)" by simp
  have r': "deref (h @ [Generator r Created]) r = Some (Instance d)" using r lt by simp
  show ?thesis
    by (simp add: py_list_def Rectangle_iter_def for_each_Created [OF g r' l w])
qed

text \<open>
  Claim C1. For all integers \<open>l\<close> and \<open>w\<close> and in any heap, the constructor returns an
  instance (it has no failure result: zero and negative values are stored like any other),
  and iterating that instance to the end yields exactly two dicts, \<^verbatim>\<open>{'length': l}\<close> then
  \<^verbatim>\<open>{'width': w}\<close>. In particular \<^verbatim>\<open>Rectangle(10, 5)\<close> yields
  \<^verbatim>\<open>[{'length': 10}, {'width': 5}]\<close>, and \<^verbatim>\<open>Rectangle(0, -3)\<close> yields
  \<^verbatim>\<open>[{'length': 0}, {'width': -3}]\<close>.
\<close>

theorem Rectangle_iteration_yields_length_then_width:
  "fst (py_list (fst (Rectangle l w h)) (snd (Rectangle l w h)))
     = Inr [[''length'' \<mapsto> l], [''width'' \<mapsto> w]]
   \<and> fst (py_list (fst (Rectangle 10 5 h)) (snd (Rectangle 10 5 h)))
     = Inr [[''length'' \<mapsto> 10], [''width'' \<mapsto> 5]]
   \<and> fst (py_list (fst (Rectangle 0 (- 3) h)) (snd (Rectangle 0 (- 3) h)))
     = Inr [[''length'' \<mapsto> 0], [''width'' \<mapsto> - 3]]"
proof -
  have "fst (py_list (length h) (h @ [Instance (Rectangle_init Map.empty a b)]))
     = Inr [[''length'' \<mapsto> a], [''width'' \<mapsto> b]]" for a b
    by (subst py_list_Rectangle [where d = "Rectangle_init Map.empty a b" and l = a and w = b])
       (simp_all add: Rectangle_init_def)
  then show ?thesis by (simp add: Rectangle_def)
qed

section \<open>Independence of iterations and the frame of the heap\<close>

lemma trace_Closed: "trace l w Closed n = replicate n (Raised StopIteration)"
  by (induction n) simp_all

lemma trace_Yielded_width: "trace l w Yielded_width n = replicate n (Raised StopIteration)"
  by (cases n) (simp_all add: trace_Closed)

lemma trace_Created:
  "trace l w Created n =
     take n [Item [''length'' \<mapsto> l], Item [''width'' \<mapsto> w]]
       @ replicate (n - 2) (Raised StopIteration)"
proof (cases n)
  case 0
  then show ?thesis by simp
next
  case (Suc m)
  then show ?thesis by (cases m) (simp_all add: trace_Yielded_width)
qed

text \<open>Every call keeps the objects that exist, and changes at most the generator it resumes.\<close>

lemma resume_other: "a \<noteq> g \<Longrightarrow> deref (snd (resume h g s f)) a = deref h a"
  by (cases f) (auto simp: yield_attr_def split: sum.splits)

lemma py_next_other: "a \<noteq> g \<Longrightarrow> deref (snd (py_next g h)) a = deref h a"
  by (auto simp: py_next_def resume_other split: option.splits pyobj.splits)

lemma py_next_Instance:
  "deref h a = Some (Instance d) \<Longrightarrow> deref (snd (py_next g h)) a = Some (Instance d)"
proof (cases "a = g")
  case True
  assume "deref h a = Some (Instance d)"
  with True show ?thesis by (simp add: py_next_def)
next
  case False
  assume "deref h a = Some (Instance d)"
  with False show ?thesis by (simp add: py_next_other)
qed

lemma snd_do_call_next: "snd (do_call (Call_next g) h) = snd (py_next g h)"
  by (simp split: prod.splits sum.splits)

lemma snd_do_calls_Cons: "snd (do_calls (c # cs) h) = snd (do_calls cs (snd (do_call c h)))"
  by (simp split: prod.splits)

lemma deref_Some_less: "deref h a = Some ob \<Longrightarrow> a < length h"
  by (simp add: deref_def split: if_splits)

lemma call_keeps:
  "deref h a = Some ob \<Longrightarrow> c \<noteq> Call_next a \<Longrightarrow> deref (snd (do_call c h)) a = Some ob"
proof (cases c)
  case (Call_Rectangle l w)
  assume "deref h a = Some ob"
  then show ?thesis using Call_Rectangle by (simp add: Rectangle_def deref_Some_less)
next
  case (Call_iter obj)
  assume "deref h a = Some ob"
  then show ?thesis using Call_iter by (simp add: Rectangle_iter_def deref_Some_less)
next
  case (Call_next g)
  assume "deref h a = Some ob" and "c \<noteq> Call_next a"
  then show ?thesis using Call_next
    by (simp only: snd_do_call_next) (simp add: py_next_other)
qed

lemma call_Instance:
  "deref h a = Some (Instance d) \<Longrightarrow> deref (snd (do_call c h)) a = Some (Instance d)"
proof (cases "c = Call_next a")
  case False
  assume "deref h a = Some (Instance d)"
  then show ?thesis using False by (rule call_keeps)
next
  case True
  assume "deref h a = Some (Instance d)"
  then show ?thesis using True
    by (simp only: snd_do_call_next) (rule py_next_Instance)
qed

lemma calls_Instance:
  "deref h a = Some (Instance d) \<Longrightarrow> deref (snd (do_calls cs h)) a = Some (Instance d)"
proof (induction cs arbitrary: h)
  case Nil
  then show ?case by simp
next
  case (Cons c cs)
  have "deref (snd (do_call c h)) a = Some (Instance d)"
    using Cons.prems by (rule call_Instance)
  then have "deref (snd (do_calls cs (snd (do_call c h)))) a = Some (Instance d)"
    by (rule Cons.IH)
  then show ?case by (simp only: snd_do_calls_Cons)
qed


lemma outcomes_of_Nil [simp]: "outcomes_of c [] h = []"
  by (simp add: outcomes_of_def)

lemma outcomes_of_Cons:
  "outcomes_of c (c' # cs) h =
     (if c' = c then [fst (do_call c' h)] else []) @ outcomes_of c cs (snd (do_call c' h))"
  by (simp add: outcomes_of_def split: prod.splits)

lemma do_call_next_Created:
  "deref h g = Some (Generator r Created) \<Longrightarrow> deref h r = Some (Instance d) \<Longrightarrow>
   d ''length'' = Some l \<Longrightarrow>
   do_call (Call_next g) h = (Item [''length'' \<mapsto> l], h[g := Generator r Yielded_length])"
  by (simp add: py_next_Created)

lemma do_call_next_Yielded_length:
  "deref h g = Some (Generator r Yielded_length) \<Longrightarrow> deref h r = Some (Instance d) \<Longrightarrow>
   d ''width'' = Some w \<Longrightarrow>
   do_call (Call_next g) h = (Item [''width'' \<mapsto> w], h[g := Generator r Yielded_width])"
  by (simp add: py_next_Yielded_length)

lemma do_call_next_Yielded_width:
  "deref h g = Some (Generator r Yielded_width) \<Longrightarrow>
   do_call (Call_next g) h = (Raised StopIteration, h[g := Generator r Closed])"
  by (simp add: py_next_Yielded_width)

lemma do_call_next_Closed:
  "deref h g = Some (Generator r Closed) \<Longrightarrow>
   do_call (Call_next g) h = (Raised StopIteration, h)"
  by (simp add: py_next_Closed)

lemma outcomes_of_next:
  assumes "deref h g = Some (Generator r f)" and "deref h r = Some (Instance d)"
    and l: "d ''length'' = Some l" and w: "d ''width'' = Some w"
  shows "outcomes_of (Call_next g) cs h = trace l w f (count_list cs (Call_next g))"
  using assms(1,2)
proof (induction cs arbitrary: h f)
  case Nil
  show ?case by simp
next
  case (Cons c cs)
  note g = Cons.prems(1) and r = Cons.prems(2)
  show ?case
  proof (cases "c = Call_next g")
    case False
    have g': "deref (snd (do_call c h)) g = Some (Generator r f)"
      using g False by (rule call_keeps)
    have r': "deref (snd (do_call c h)) r = Some (Instance d)"
      using r by (rule call_Instance)
    show ?thesis
      using False Cons.IH [OF g' r'] by (simp add: outcomes_of_Cons)
  next
    case True
    show ?thesis
    proof (cases f)
      case Created
      let ?h = "h[g := Generator r Yielded_length]"
      have st: "do_call (Call_next g) h = (Item [''length'' \<mapsto> l], ?h)"
        using g r l unfolding Created by (rule do_call_next_Created)
      have g': "deref ?h g = Some (Generator r Yielded_length)"
        using g by (rule deref_update_Generator_same)
      have r': "deref ?h r = Some (Instance d)"
        using g r by (rule deref_update_Generator)
      show ?thesis
        using True Created st Cons.IH [OF g' r'] by (simp add: outcomes_of_Cons)
    next
      case Yielded_length
      let ?h = "h[g := Generator r Yielded_width]"
      have st: "do_call (Call_next g) h = (Item [''width'' \<mapsto> w], ?h)"
        using g r w unfolding Yielded_length by (rule do_call_next_Yielded_length)
      have g': "deref ?h g = Some (Generator r Yielded_width)"
        using g by (rule deref_update_Generator_same)
      have r': "deref ?h r = Some (Instance d)"
        using g r by (rule deref_update_Generator)
      show ?thesis
        using True Yielded_length st Cons.IH [OF g' r'] by (simp add: outcomes_of_Cons)
    next
      case Yielded_width
      let ?h = "h[g := Generator r Closed]"
      have st: "do_call (Call_next g) h = (Raised StopIteration, ?h)"
        using g unfolding Yielded_width by (rule do_call_next_Yielded_width)
      have g': "deref ?h g = Some (Generator r Closed)"
        using g by (rule deref_update_Generator_same)
      have r': "deref ?h r = Some (Instance d)"
        using g r by (rule deref_update_Generator)
      show ?thesis
        using True Yielded_width st Cons.IH [OF g' r'] by (simp add: outcomes_of_Cons)
    next
      case Closed
      have st: "do_call (Call_next g) h = (Raised StopIteration, h)"
        using g unfolding Closed by (rule do_call_next_Closed)
      show ?thesis
        using True Closed st Cons.IH [OF g r] by (simp add: outcomes_of_Cons)
    qed
  qed
qed

text \<open>
  Claim C4. Each iteration request on the same instance starts a fresh, finite sequence.
  With two generators made from one rectangle, whatever program of calls runs next (calls
  of \<^verbatim>\<open>next\<close> on either generator in any interleaving, further \<^verbatim>\<open>iter\<close> calls, new
  rectangles), the calls of \<^verbatim>\<open>next\<close> on each generator give \<^verbatim>\<open>{'length': l}\<close>, then
  \<^verbatim>\<open>{'width': w}\<close>, then \<^verbatim>\<open>StopIteration\<close> from the third call on: neither sequence depends
  on how far the other has advanced. Iterating the instance to the end twice in a row
  gives the same two dicts both times.
\<close>

theorem iterating_twice_gives_independent_sequences:
  "(case two_iterators l w h of
      (it1, it2, h3) \<Rightarrow>
        it1 \<noteq> it2
        \<and> outcomes_of (Call_next it1) cs h3 =
            take (count_list cs (Call_next it1)) [Item [''length'' \<mapsto> l], Item [''width'' \<mapsto> w]]
              @ replicate (count_list cs (Call_next it1) - 2) (Raised StopIteration)
        \<and> outcomes_of (Call_next it2) cs h3 =
            take (count_list cs (Call_next it2)) [Item [''length'' \<mapsto> l], Item [''width'' \<mapsto> w]]
              @ replicate (count_list cs (Call_next it2) - 2) (Raised StopIteration))
   \<and> fst (py_list (fst (Rectangle l w h)) (snd (Rectangle l w h)))
       = Inr [[''length'' \<mapsto> l], [''width'' \<mapsto> w]]
   \<and> fst (py_list (fst (Rectangle l w h))
             (snd (py_list (fst (Rectangle l w h)) (snd (Rectangle l w h)))))
       = Inr [[''length'' \<mapsto> l], [''width'' \<mapsto> w]]"
proof -
  let ?d = "Rectangle_init Map.empty l w"
  let ?h1 = "h @ [Instance ?d]"
  let ?h3 = "?h1 @ [Generator (length h) Created] @ [Generator (length h) Created]"
  have two: "two_iterators l w h = (Suc (length h), Suc (Suc (length h)), ?h3)"
    by (simp add: two_iterators_def Rectangle_def Rectangle_iter_def)
  have r1: "deref ?h1 (length h) = Some (Instance ?d)" by simp
  have r3: "deref ?h3 (length h) = Some (Instance ?d)"
    by (simp add: deref_def nth_append)
  have g1: "deref ?h3 (Suc (length h)) = Some (Generator (length h) Created)"
    by (simp add: deref_def nth_append)
  have g2: "deref ?h3 (Suc (Suc (length h))) = Some (Generator (length h) Created)"
    by (simp add: deref_def nth_append)
  have l: "?d ''length'' = Some l" and w: "?d ''width'' = Some w"
    by (simp_all add: Rectangle_init_def)
  have o1: "outcomes_of (Call_next (Suc (length h))) cs ?h3
            = trace l w Created (count_list cs (Call_next (Suc (length h))))"
    using g1 r3 l w by (rule outcomes_of_next)
  have o2: "outcomes_of (Call_next (Suc (Suc (length h)))) cs ?h3
            = trace l w Created (count_list cs (Call_next (Suc (Suc (length h)))))"
    using g2 r3 l w by (rule outcomes_of_next)
  have p1: "py_list (length h) ?h1
            = (Inr [[''length'' \<mapsto> l], [''width'' \<mapsto> w]], ?h1 @ [Generator (length h) Closed])"
    using r1 l w by (rule py_list_Rectangle)
  have r1': "deref (?h1 @ [Generator (length h) Closed]) (length h) = Some (Instance ?d)"
    by (simp add: deref_def nth_append)
  have p2: "fst (py_list (length h) (?h1 @ [Generator (length h) Closed]))
            = Inr [[''length'' \<mapsto> l], [''width'' \<mapsto> w]]"
    by (simp only: py_list_Rectangle [OF r1' l w] fst_conv)
  have a: "case two_iterators l w h of
      (it1, it2, h3) \<Rightarrow>
        it1 \<noteq> it2
        \<and> outcomes_of (Call_next it1) cs h3 =
            take (count_list cs (Call_next it1)) [Item [''length'' \<mapsto> l], Item [''width'' \<mapsto> w]]
              @ replicate (count_list cs (Call_next it1) - 2) (Raised StopIteration)
        \<and> outcomes_of (Call_next it2) cs h3 =
            take (count_list cs (Call_next it2)) [Item [''length'' \<mapsto> l], Item [''width'' \<mapsto> w]]
              @ replicate (count_list cs (Call_next it2) - 2) (Raised StopIteration)"
    by (simp only: two prod.case o1 o2 trace_Created) simp
  have b: "fst (py_list (fst (Rectangle l w h)) (snd (Rectangle l w h)))
       = Inr [[''length'' \<mapsto> l], [''width'' \<mapsto> w]]"
    by (simp only: Rectangle_def fst_conv snd_conv p1)
  have c: "fst (py_list (fst (Rectangle l w h))
             (snd (py_list (fst (Rectangle l w h)) (snd (Rectangle l w h)))))
       = Inr [[''length'' \<mapsto> l], [''width'' \<mapsto> w]]"
    by (simp only: Rectangle_def fst_conv snd_conv p1 p2)
  from a b c show ?thesis by (intro conjI)
qed

text \<open>
  Claim C9. Iterating a rectangle does not change it: after any program of calls
  (iteration requests, \<^verbatim>\<open>next\<close> calls that leave a generator unstarted, suspended or
  exhausted, in any number and order), reading \<^verbatim>\<open>length\<close> still gives \<open>l\<close> and reading
  \<^verbatim>\<open>width\<close> still gives \<open>w\<close>.
\<close>

theorem iterating_leaves_attributes_unchanged:
  "getattr (snd (do_calls cs (snd (Rectangle l w h)))) (fst (Rectangle l w h)) ''length'' = Inr l
   \<and> getattr (snd (do_calls cs (snd (Rectangle l w h)))) (fst (Rectangle l w h)) ''width'' = Inr w"
proof -
  let ?d = "Rectangle_init Map.empty l w"
  have "deref (h @ [Instance ?d]) (length h) = Some (Instance ?d)" by simp
  then have "deref (snd (do_calls cs (h @ [Instance ?d]))) (length h) = Some (Instance ?d)"
    by (rule calls_Instance)
  then show ?thesis
    by (simp add: Rectangle_def getattr_def Rectangle_init_def)
qed

section \<open>Attributes and equality of rectangles\<close>

lemma do_call_length: "length h \<le> length (snd (do_call c h))"
proof (cases c)
  case (Call_Rectangle l w)
  then show ?thesis by (simp add: Rectangle_def)
next
  case (Call_iter obj)
  then show ?thesis by (simp add: Rectangle_iter_def)
next
  case (Call_next g)
  have "length (snd (py_next g h)) = length h"
  proof (cases "deref h g")
    case None
    then show ?thesis by (simp add: py_next_def)
  next
    case (Some ob)
    then show ?thesis
    proof (cases ob)
      case (Instance d)
      with Some show ?thesis by (simp add: py_next_def)
    next
      case (Generator s f)
      with Some show ?thesis
        by (cases f) (auto simp: py_next_def yield_attr_def split: sum.splits)
    qed
  qed
  with Call_next show ?thesis by (simp only: snd_do_call_next)
qed

lemma do_calls_length: "length h \<le> length (snd (do_calls cs h))"
proof (induction cs arbitrary: h)
  case Nil
  show ?case by simp
next
  case (Cons c cs)
  have "length h \<le> length (snd (do_call c h))" by (rule do_call_length)
  also have "\<dots> \<le> length (snd (do_calls cs (snd (do_call c h))))" by (rule Cons.IH)
  finally show ?case by (simp only: snd_do_calls_Cons)
qed

text \<open>
  Claim C5 says that a rectangle is immutable after construction and that two rectangles
  with equal length and width are equal. Both fail. The class defines no equality: two
  rectangles built by two calls \<^verbatim>\<open>Rectangle(10, 5)\<close> have the same length and the same
  width, and \<^verbatim>\<open>==\<close> on them is false. The class does not protect its attributes: after
  \<^verbatim>\<open>r = Rectangle(10, 5); r.width = 99\<close> the object is what \<^verbatim>\<open>Rectangle(10, 99)\<close> builds,
  and its width reads 99.
\<close>

theorem Rectangle_is_neither_compared_by_fields_nor_immutable:
  "getattr (snd (Rectangle 10 5 (snd (Rectangle 10 5 [])))) (fst (Rectangle 10 5 [])) ''length''
     = getattr (snd (Rectangle 10 5 (snd (Rectangle 10 5 []))))
         (fst (Rectangle 10 5 (snd (Rectangle 10 5 [])))) ''length''
   \<and> getattr (snd (Rectangle 10 5 (snd (Rectangle 10 5 [])))) (fst (Rectangle 10 5 [])) ''width''
     = getattr (snd (Rectangle 10 5 (snd (Rectangle 10 5 []))))
         (fst (Rectangle 10 5 (snd (Rectangle 10 5 [])))) ''width''
   \<and> \<not> py_eq (fst (Rectangle 10 5 [])) (fst (Rectangle 10 5 (snd (Rectangle 10 5 []))))
   \<and> getattr (snd (Rectangle 10 5 [])) (fst (Rectangle 10 5 [])) ''width'' = Inr 5
   \<and> py_setattr (snd (Rectangle 10 5 [])) (fst (Rectangle 10 5 [])) ''width'' 99
       = Inr (snd (Rectangle 10 99 []))
   \<and> getattr (snd (Rectangle 10 99 [])) (fst (Rectangle 10 5 [])) ''width'' = Inr 99"
  by (simp add: Rectangle_def py_eq_def getattr_def py_setattr_def deref_def Rectangle_init_def)

lemma py_setattr_length:
  "py_setattr (snd (Rectangle l w h)) (fst (Rectangle l w h)) ''length'' v
     = Inr (snd (Rectangle v w h))"
  by (simp add: Rectangle_def py_setattr_def Rectangle_init_def fun_eq_iff)

lemma py_setattr_width:
  "py_setattr (snd (Rectangle l w h)) (fst (Rectangle l w h)) ''width'' v
     = Inr (snd (Rectangle l v h))"
  by (simp add: Rectangle_def py_setattr_def Rectangle_init_def)

text \<open>
  Claim C5, amended. A rectangle holds exactly two attributes, \<^verbatim>\<open>length\<close> and \<^verbatim>\<open>width\<close>,
  with the integers given to the constructor. It is not immutable: an assignment to
  \<^verbatim>\<open>length\<close> or to \<^verbatim>\<open>width\<close> after construction succeeds and leaves the object the
  constructor would have built with the new value; only the calls the class itself offers
  (construction of another rectangle, \<^verbatim>\<open>iter\<close>, \<^verbatim>\<open>next\<close>) leave it unchanged. It has an
  identity beyond its fields: equality is the identity of objects, so a rectangle is
  equal to itself, and a rectangle built later with the same length and width has equal
  attributes but is not equal to it.
\<close>

theorem Rectangle_attributes_and_identity:
  "(case Rectangle l w h of
      (a, h1) \<Rightarrow>
        deref h1 a = Some (Instance (Rectangle_init Map.empty l w))
        \<and> dom (Rectangle_init Map.empty l w) = {''length'', ''width''}
        \<and> Rectangle_init Map.empty l w ''length'' = Some l
        \<and> Rectangle_init Map.empty l w ''width'' = Some w
        \<and> py_setattr h1 a ''length'' v = Inr (snd (Rectangle v w h))
        \<and> py_setattr h1 a ''width'' v = Inr (snd (Rectangle l v h))
        \<and> deref (snd (do_calls cs h1)) a = deref h1 a
        \<and> (case Rectangle l w (snd (do_calls cs h1)) of
              (b, h2) \<Rightarrow>
                getattr h2 b ''length'' = getattr h2 a ''length''
                \<and> getattr h2 b ''width'' = getattr h2 a ''width''
                \<and> \<not> py_eq a b \<and> py_eq a a \<and> py_eq b b))"
proof -
  let ?d = "Rectangle_init Map.empty l w"
  let ?h1 = "h @ [Instance ?d]"
  let ?hc = "snd (do_calls cs ?h1)"
  have r1: "deref ?h1 (length h) = Some (Instance ?d)" by simp
  have rc: "deref ?hc (length h) = Some (Instance ?d)" using r1 by (rule calls_Instance)
  have lt: "length h < length ?hc"
  proof -
    have "length h < length ?h1" by simp
    also have "\<dots> \<le> length ?hc" by (rule do_calls_length)
    finally show ?thesis .
  qed
  have dm: "dom ?d = {''length'', ''width''}" by (auto simp: Rectangle_init_def)
  have a2: "deref (?hc @ [Instance ?d]) (length h) = Some (Instance ?d)"
    using rc lt by simp
  have b2: "deref (?hc @ [Instance ?d]) (length ?hc) = Some (Instance ?d)" by simp
  have ga: "getattr (?hc @ [Instance ?d]) (length ?hc) k = getattr (?hc @ [Instance ?d]) (length h) k" for k
    by (simp only: getattr_def a2 b2)
  have ne: "\<not> py_eq (length h) (length ?hc)" using lt by (simp add: py_eq_def)
  have sl: "py_setattr ?h1 (length h) ''length'' v = Inr (h @ [Instance (Rectangle_init Map.empty v w)])"
    using py_setattr_length [of l w h v] by (simp add: Rectangle_def)
  have sw: "py_setattr ?h1 (length h) ''width'' v = Inr (h @ [Instance (Rectangle_init Map.empty l v)])"
    using py_setattr_width [of l w h v] by (simp add: Rectangle_def)
  have main: "deref ?h1 (length h) = Some (Instance ?d)
        \<and> dom ?d = {''length'', ''width''}
        \<and> ?d ''length'' = Some l
        \<and> ?d ''width'' = Some w
        \<and> py_setattr ?h1 (length h) ''length'' v = Inr (h @ [Instance (Rectangle_init Map.empty v w)])
        \<and> py_setattr ?h1 (length h) ''width'' v = Inr (h @ [Instance (Rectangle_init Map.empty l v)])
        \<and> deref ?hc (length h) = deref ?h1 (length h)
        \<and> getattr (?hc @ [Instance ?d]) (length ?hc) ''length''
            = getattr (?hc @ [Instance ?d]) (length h) ''length''
        \<and> getattr (?hc @ [Instance ?d]) (length ?hc) ''width''
            = getattr (?hc @ [Instance ?d]) (length h) ''width''
        \<and> \<not> py_eq (length h) (length ?hc) \<and> py_eq (length h) (length h)
        \<and> py_eq (length ?hc) (length ?hc)"
    using r1 rc dm ga ne sl sw
    by (simp add: py_eq_def Rectangle_init_length Rectangle_init_width)
  show ?thesis
    using main by (simp add: Rectangle_def)
qed

section \<open>Creating a user and the transactional probe\<close>

lemmas signal_defs = and_then_def py_print_def sleep_def User_objects_create_def
  post_save_receivers_def slow_signal_handler_def thread_check_def create_profile_def
  Profile_objects_create_def

lemma create_existing_user:
  "username \<in> set (users w) \<Longrightarrow> User_objects_create username w = (Inl IntegrityError, w)"
  by (simp add: User_objects_create_def)

lemma create_existing_profile:
  "username \<notin> set (users w) \<Longrightarrow> username \<in> set (profiles w) \<Longrightarrow>
   User_objects_create username w =
     (Inl IntegrityError,
      w\<lparr>users := users w @ [username],
        out := out w @ [[S ''[Signal] Started processing...''],
                        [S ''[Signal] Finished processing.''],
                        [S ''[Signal] Thread ID: '', N (thread w)]],
        clock := clock w + 3\<rparr>)"
  by (simp add: signal_defs)

lemma create_fresh:
  "username \<notin> set (users w) \<Longrightarrow> username \<notin> set (profiles w) \<Longrightarrow>
   User_objects_create username w =
     (Inr username,
      w\<lparr>users := users w @ [username],
        profiles := profiles w @ [username],
        out := out w @ [[S ''[Signal] Started processing...''],
                        [S ''[Signal] Finished processing.''],
                        [S ''[Signal] Thread ID: '', N (thread w)],
                        [S ''[Signal] Profile created inside same transaction'']],
        clock := clock w + 3\<rparr>)"
  by (simp add: signal_defs)

lemma block_existing_user:
  "''rollback_user'' \<in> set (users w) \<Longrightarrow> rollback_block joined w = (Inl IntegrityError, w)"
  by (simp add: rollback_block_def transaction_atomic_def rollback_def and_then_def
        create_existing_user)

lemma block_existing_profile:
  "''rollback_user'' \<notin> set (users w) \<Longrightarrow> ''rollback_user'' \<in> set (profiles w) \<Longrightarrow>
   rollback_block joined w =
     (Inl IntegrityError,
      w\<lparr>out := out w @ [[S ''[Signal] Started processing...''],
                        [S ''[Signal] Finished processing.''],
                        [S ''[Signal] Thread ID: '', N (thread w)]],
        clock := clock w + 3\<rparr>)"
  by (simp add: rollback_block_def transaction_atomic_def rollback_def and_then_def
        create_existing_profile)

lemma block_fresh:
  "''rollback_user'' \<notin> set (users w) \<Longrightarrow> ''rollback_user'' \<notin> set (profiles w) \<Longrightarrow>
   rollback_block joined w =
     (Inl (Exception ''Force rollback after signal''),
      w\<lparr>profiles := (if joined then profiles w else profiles w @ [''rollback_user'']),
        out := out w @ [[S ''[Signal] Started processing...''],
                        [S ''[Signal] Finished processing.''],
                        [S ''[Signal] Thread ID: '', N (thread w)],
                        [S ''[Signal] Profile created inside same transaction'']],
        clock := clock w + 3\<rparr>)"
  by (simp add: rollback_block_def transaction_atomic_def rollback_def and_then_def
        create_fresh)

lemmas test3_defs = test_transaction_signal_def try_except_Exception_def and_then_def
  py_print_def Profile_objects_count_def

lemma test3_existing_user:
  "''rollback_user'' \<in> set (users w) \<Longrightarrow>
   test_transaction_signal joined w =
     (Inr (),
      w\<lparr>out := out w @ [[S ''\<newline>=== Test 3: Transaction Behavior ===''],
                        [S ''[Main] Exception caught:'', E IntegrityError],
                        [S ''Profiles in DB after rollback:'', N (int (length (profiles w)))],
                        [S (''If 0 '' @ rightwards_arrow @ '' Signal ran in same transaction.\<newline>'')]]\<rparr>)"
  by (simp add: test3_defs block_existing_user)

lemma test3_existing_profile:
  "''rollback_user'' \<notin> set (users w) \<Longrightarrow> ''rollback_user'' \<in> set (profiles w) \<Longrightarrow>
   test_transaction_signal joined w =
     (Inr (),
      w\<lparr>out := out w @ [[S ''\<newline>=== Test 3: Transaction Behavior ===''],
                        [S ''[Signal] Started processing...''],
                        [S ''[Signal] Finished processing.''],
                        [S ''[Signal] Thread ID: '', N (thread w)],
                        [S ''[Main] Exception caught:'', E IntegrityError],
                        [S ''Profiles in DB after rollback:'', N (int (length (profiles w)))],
                        [S (''If 0 '' @ rightwards_arrow @ '' Signal ran in same transaction.\<newline>'')]],
        clock := clock w + 3\<rparr>)"
  by (simp add: test3_defs block_existing_profile)

lemma test3_fresh:
  "''rollback_user'' \<notin> set (users w) \<Longrightarrow> ''rollback_user'' \<notin> set (profiles w) \<Longrightarrow>
   test_transaction_signal joined w =
     (Inr (),
      w\<lparr>profiles := (if joined then profiles w else profiles w @ [''rollback_user'']),
        out := out w @ [[S ''\<newline>=== Test 3: Transaction Behavior ===''],
                        [S ''[Signal] Started processing...''],
                        [S ''[Signal] Finished processing.''],
                        [S ''[Signal] Thread ID: '', N (thread w)],
                        [S ''[Signal] Profile created inside same transaction''],
                        [S ''[Main] Exception caught:'', E (Exception ''Force rollback after signal'')],
                        [S ''Profiles in DB after rollback:'',
                         N (int (length (profiles w)) + (if joined then 0 else 1))],
                        [S (''If 0 '' @ rightwards_arrow @ '' Signal ran in same transaction.\<newline>'')]],
        clock := clock w + 3\<rparr>)"
  by (simp add: test3_defs block_fresh)

lemma test3_returns: "fst (test_transaction_signal joined w) = Inr ()"
proof (cases "''rollback_user'' \<in> set (users w)")
  case True
  then show ?thesis by (simp add: test3_existing_user)
next
  case False
  note nu = False
  show ?thesis
  proof (cases "''rollback_user'' \<in> set (profiles w)")
    case True
    with nu show ?thesis by (simp add: test3_existing_profile)
  next
    case False
    with nu show ?thesis by (simp add: test3_fresh)
  qed
qed

lemma test3_users: "users (snd (test_transaction_signal joined w)) = users w"
proof (cases "''rollback_user'' \<in> set (users w)")
  case True
  then show ?thesis by (simp add: test3_existing_user)
next
  case False
  note nu = False
  show ?thesis
  proof (cases "''rollback_user'' \<in> set (profiles w)")
    case True
    with nu show ?thesis by (simp add: test3_existing_profile)
  next
    case False
    with nu show ?thesis by (simp add: test3_fresh)
  qed
qed

lemma block_raises_Exception:
  "(case fst (rollback_block joined w) of Inl e \<Rightarrow> is_Exception e | Inr u \<Rightarrow> False)"
proof (cases "''rollback_user'' \<in> set (users w)")
  case True
  then show ?thesis by (simp add: block_existing_user)
next
  case False
  note nu = False
  show ?thesis
  proof (cases "''rollback_user'' \<in> set (profiles w)")
    case True
    with nu show ?thesis by (simp add: block_existing_profile)
  next
    case False
    with nu show ?thesis by (simp add: block_fresh)
  qed
qed

text \<open>
  Claim C3. \<^verbatim>\<open>test_transaction_signal\<close> completes normally in every world, whatever
  happens in the transactional block: an exception is always caught and printed, the
  count of profile rows and the interpretation line are always the last two lines
  printed, and there is no other result (no assertion, no verdict). The user table is as
  before the call. When the user and its profile can be created, the user row is written
  inside the block, the block then raises the forced exception, and the lines printed are
  the header, the four lines of the receivers, the caught message
  \<^verbatim>\<open>Force rollback after signal\<close>, the count and the interpretation.
\<close>

theorem test_transaction_signal_reports_without_verdict:
  "fst (test_transaction_signal joined w) = Inr ()
   \<and> users (snd (test_transaction_signal joined w)) = users w
   \<and> (\<exists>mid e.
         out (snd (test_transaction_signal joined w)) =
           out w @ [[S ''\<newline>=== Test 3: Transaction Behavior ==='']] @ mid @
             [[S ''[Main] Exception caught:'', E e],
              [S ''Profiles in DB after rollback:'',
               N (int (length (profiles (snd (test_transaction_signal joined w)))))],
              [S (''If 0 '' @ rightwards_arrow @ '' Signal ran in same transaction.\<newline>'')]])
   \<and> (''rollback_user'' \<notin> set (users w) \<and> ''rollback_user'' \<notin> set (profiles w) \<longrightarrow>
         ''rollback_user'' \<in> set (users (snd (User_objects_create ''rollback_user''
             (py_print [S ''\<newline>=== Test 3: Transaction Behavior ===''] w))))
         \<and> fst (rollback_block joined (py_print [S ''\<newline>=== Test 3: Transaction Behavior ===''] w))
             = Inl (Exception ''Force rollback after signal'')
         \<and> out (snd (test_transaction_signal joined w)) =
             out w @ [[S ''\<newline>=== Test 3: Transaction Behavior ===''],
                      [S ''[Signal] Started processing...''],
                      [S ''[Signal] Finished processing.''],
                      [S ''[Signal] Thread ID: '', N (thread w)],
                      [S ''[Signal] Profile created inside same transaction''],
                      [S ''[Main] Exception caught:'', E (Exception ''Force rollback after signal'')],
                      [S ''Profiles in DB after rollback:'',
                       N (int (length (profiles (snd (test_transaction_signal joined w)))))],
                      [S (''If 0 '' @ rightwards_arrow @ '' Signal ran in same transaction.\<newline>'')]])"
proof -
  let ?hdr = "[S ''\<newline>=== Test 3: Transaction Behavior ===''] :: line"
  have ex: "\<exists>mid e.
         out (snd (test_transaction_signal joined w)) =
           out w @ [?hdr] @ mid @
             [[S ''[Main] Exception caught:'', E e],
              [S ''Profiles in DB after rollback:'',
               N (int (length (profiles (snd (test_transaction_signal joined w)))))],
              [S (''If 0 '' @ rightwards_arrow @ '' Signal ran in same transaction.\<newline>'')]]"
  proof (cases "''rollback_user'' \<in> set (users w)")
    case True
    show ?thesis
      by (rule exI [of _ "[]"], rule exI [of _ IntegrityError])
         (simp add: test3_existing_user [OF True])
  next
    case False
    note nu = False
    show ?thesis
    proof (cases "''rollback_user'' \<in> set (profiles w)")
      case True
      show ?thesis
        by (rule exI [of _ "[[S ''[Signal] Started processing...''],
                             [S ''[Signal] Finished processing.''],
                             [S ''[Signal] Thread ID: '', N (thread w)]]"],
            rule exI [of _ IntegrityError])
           (simp add: test3_existing_profile [OF nu True])
    next
      case False
      show ?thesis
        by (rule exI [of _ "[[S ''[Signal] Started processing...''],
                             [S ''[Signal] Finished processing.''],
                             [S ''[Signal] Thread ID: '', N (thread w)],
                             [S ''[Signal] Profile created inside same transaction'']]"],
            rule exI [of _ "Exception ''Force rollback after signal''"])
           (simp add: test3_fresh [OF nu False])
    qed
  qed
  have fresh: "''rollback_user'' \<in> set (users (snd (User_objects_create ''rollback_user''
             (py_print ?hdr w))))
         \<and> fst (rollback_block joined (py_print ?hdr w))
             = Inl (Exception ''Force rollback after signal'')
         \<and> out (snd (test_transaction_signal joined w)) =
             out w @ [?hdr,
                      [S ''[Signal] Started processing...''],
                      [S ''[Signal] Finished processing.''],
                      [S ''[Signal] Thread ID: '', N (thread w)],
                      [S ''[Signal] Profile created inside same transaction''],
                      [S ''[Main] Exception caught:'', E (Exception ''Force rollback after signal'')],
                      [S ''Profiles in DB after rollback:'',
                       N (int (length (profiles (snd (test_transaction_signal joined w)))))],
                      [S (''If 0 '' @ rightwards_arrow @ '' Signal ran in same transaction.\<newline>'')]]"
    if nu: "''rollback_user'' \<notin> set (users w)" and np: "''rollback_user'' \<notin> set (profiles w)"
  proof -
    have nu': "''rollback_user'' \<notin> set (users (py_print ?hdr w))"
      and np': "''rollback_user'' \<notin> set (profiles (py_print ?hdr w))"
      using nu np by (simp_all add: py_print_def)
    show ?thesis
      by (simp add: create_fresh [OF nu' np'] block_fresh [OF nu' np'] test3_fresh [OF nu np])
  qed
  from test3_returns test3_users ex fresh show ?thesis by blast
qed

theorem test_transaction_signal_reports_without_verdict_witness:
  "''rollback_user'' \<notin> set (users \<lparr>users = [], profiles = [], out = [], clock = 0, thread = 1, objects = []\<rparr>)
   \<and> ''rollback_user'' \<notin> set (profiles \<lparr>users = [], profiles = [], out = [], clock = 0, thread = 1, objects = []\<rparr>)
   \<and> fst (rollback_block True
         (py_print [S ''\<newline>=== Test 3: Transaction Behavior ==='']
            \<lparr>users = [], profiles = [], out = [], clock = 0, thread = 1, objects = []\<rparr>))
       = Inl (Exception ''Force rollback after signal'')"
  using test_transaction_signal_reports_without_verdict
    [of True "\<lparr>users = [], profiles = [], out = [], clock = 0, thread = 1, objects = []\<rparr>"]
  by simp

section \<open>The tests without a handler, the driver and the entry point\<close>

lemma test1_existing_user:
  "''sync_test_user'' \<in> set (users w) \<Longrightarrow>
   test_synchronous_signal w =
     (Inl IntegrityError,
      w\<lparr>out := out w @ [[S ''\<newline>=== Test 1: Synchronous Signal ===''],
                        [S ''Creating user...'']]\<rparr>)"
  by (simp add: test_synchronous_signal_def and_then_def py_print_def create_existing_user)

lemma test1_existing_profile:
  "''sync_test_user'' \<notin> set (users w) \<Longrightarrow> ''sync_test_user'' \<in> set (profiles w) \<Longrightarrow>
   test_synchronous_signal w =
     (Inl IntegrityError,
      w\<lparr>users := users w @ [''sync_test_user''],
        out := out w @ [[S ''\<newline>=== Test 1: Synchronous Signal ===''],
                        [S ''Creating user...''],
                        [S ''[Signal] Started processing...''],
                        [S ''[Signal] Finished processing.''],
                        [S ''[Signal] Thread ID: '', N (thread w)]],
        clock := clock w + 3\<rparr>)"
  by (simp add: test_synchronous_signal_def and_then_def py_print_def create_existing_profile)

lemma test1_fresh:
  "''sync_test_user'' \<notin> set (users w) \<Longrightarrow> ''sync_test_user'' \<notin> set (profiles w) \<Longrightarrow>
   test_synchronous_signal w =
     (Inr (),
      w\<lparr>users := users w @ [''sync_test_user''],
        profiles := profiles w @ [''sync_test_user''],
        out := out w @ [[S ''\<newline>=== Test 1: Synchronous Signal ===''],
                        [S ''Creating user...''],
                        [S ''[Signal] Started processing...''],
                        [S ''[Signal] Finished processing.''],
                        [S ''[Signal] Thread ID: '', N (thread w)],
                        [S ''[Signal] Profile created inside same transaction''],
                        [S (''User created successfully '' @ em_dash @ '' after signal completed.\<newline>'')]],
        clock := clock w + 3\<rparr>)"
  by (simp add: test_synchronous_signal_def and_then_def py_print_def create_fresh)

lemma test2_existing_user:
  "''thread_test_user'' \<in> set (users w) \<Longrightarrow>
   test_thread_signal w =
     (Inl IntegrityError,
      w\<lparr>out := out w @ [[S ''\<newline>=== Test 2: Thread Check ===''],
                        [S ''[Main] Thread ID: '', N (thread w)]]\<rparr>)"
  by (simp add: test_thread_signal_def and_then_def py_print_def create_existing_user)

lemma test2_existing_profile:
  "''thread_test_user'' \<notin> set (users w) \<Longrightarrow> ''thread_test_user'' \<in> set (profiles w) \<Longrightarrow>
   test_thread_signal w =
     (Inl IntegrityError,
      w\<lparr>users := users w @ [''thread_test_user''],
        out := out w @ [[S ''\<newline>=== Test 2: Thread Check ===''],
                        [S ''[Main] Thread ID: '', N (thread w)],
                        [S ''[Signal] Started processing...''],
                        [S ''[Signal] Finished processing.''],
                        [S ''[Signal] Thread ID: '', N (thread w)]],
        clock := clock w + 3\<rparr>)"
  by (simp add: test_thread_signal_def and_then_def py_print_def create_existing_profile)

lemma test2_fresh:
  "''thread_test_user'' \<notin> set (users w) \<Longrightarrow> ''thread_test_user'' \<notin> set (profiles w) \<Longrightarrow>
   test_thread_signal w =
     (Inr (),
      w\<lparr>users := users w @ [''thread_test_user''],
        profiles := profiles w @ [''thread_test_user''],
        out := out w @ [[S ''\<newline>=== Test 2: Thread Check ===''],
                        [S ''[Main] Thread ID: '', N (thread w)],
                        [S ''[Signal] Started processing...''],
                        [S ''[Signal] Finished processing.''],
                        [S ''[Signal] Thread ID: '', N (thread w)],
                        [S ''[Signal] Profile created inside same transaction''],
                        [S (''Both thread IDs should match '' @ em_dash @ '' same thread.\<newline>'')]],
        clock := clock w + 3\<rparr>)"
  by (simp add: test_thread_signal_def and_then_def py_print_def create_fresh)

lemma test4_result:
  "test_rectangle_iteration w =
     (Inr (),
      w\<lparr>out := out w @ [[S ''\<newline>=== Test 4: Custom Rectangle Class ===''],
                        [D [''length'' \<mapsto> 10]],
                        [D [''width'' \<mapsto> 5]],
                        []],
        objects := objects w @ [Instance (Rectangle_init Map.empty 10 5),
                                Generator (length (objects w)) Closed]\<rparr>)"
proof -
  let ?d = "Rectangle_init Map.empty 10 5"
  let ?h2 = "objects w @ [Instance ?d, Generator (length (objects w)) Created]"
  have g: "deref ?h2 (Suc (length (objects w))) = Some (Generator (length (objects w)) Created)"
    by (simp add: deref_def nth_append)
  have r: "deref ?h2 (length (objects w)) = Some (Instance ?d)"
    by (simp add: deref_def nth_append)
  have l: "?d ''length'' = Some 10" and wd: "?d ''width'' = Some 5"
    by (simp_all add: Rectangle_init_def)
  have loop: "for_each (Suc (length (objects w))) body ?h2 s =
                (Inr (), ?h2[Suc (length (objects w)) := Generator (length (objects w)) Closed],
                 body [''width'' \<mapsto> 5] (body [''length'' \<mapsto> 10] s))" for body :: "dict \<Rightarrow> world \<Rightarrow> world" and s
    using g r l wd by (rule for_each_Created)
  have upd: "?h2[Suc (length (objects w)) := Generator (length (objects w)) Closed]
             = objects w @ [Instance ?d, Generator (length (objects w)) Closed]"
    by (simp add: list_update_append)
  show ?thesis
    by (simp add: test_rectangle_iteration_def Let_def Rectangle_def Rectangle_iter_def
          py_print_def loop upd)
qed

lemma test1_ok_iff:
  "fst (test_synchronous_signal w) = Inr () \<longleftrightarrow>
     ''sync_test_user'' \<notin> set (users w) \<and> ''sync_test_user'' \<notin> set (profiles w)"
proof (cases "''sync_test_user'' \<in> set (users w)")
  case True
  then show ?thesis by (simp add: test1_existing_user)
next
  case False
  then show ?thesis
    by (cases "''sync_test_user'' \<in> set (profiles w)")
       (simp_all add: test1_existing_profile test1_fresh)
qed

lemma test2_ok_iff:
  "fst (test_thread_signal w) = Inr () \<longleftrightarrow>
     ''thread_test_user'' \<notin> set (users w) \<and> ''thread_test_user'' \<notin> set (profiles w)"
proof (cases "''thread_test_user'' \<in> set (users w)")
  case True
  then show ?thesis by (simp add: test2_existing_user)
next
  case False
  then show ?thesis
    by (cases "''thread_test_user'' \<in> set (profiles w)")
       (simp_all add: test2_existing_profile test2_fresh)
qed

text \<open>
  Claim C7. \<^verbatim>\<open>test_synchronous_signal\<close> has no handler: an exception raised by
  \<^verbatim>\<open>User.objects.create\<close> (line 24) is the result of the test, with the world as the
  failing call left it, and the line \<^verbatim>\<open>User created successfully ...\<close> is not among the
  lines the failed test printed. A username that is already in the user table raises the
  uniqueness violation after the header and \<^verbatim>\<open>Creating user...\<close> only; in particular a
  second run after a successful one fails this way.
\<close>

theorem test_synchronous_signal_errors_propagate:
  "(User_objects_create ''sync_test_user''
        (py_print [S ''Creating user...'']
           (py_print [S ''\<newline>=== Test 1: Synchronous Signal ===''] w)) = (Inl e, w')
      \<longrightarrow> test_synchronous_signal w = (Inl e, w'))
   \<and> (fst (test_synchronous_signal w) = Inl e \<longrightarrow>
        (\<exists>new. out (snd (test_synchronous_signal w)) = out w @ new
           \<and> [S (''User created successfully '' @ em_dash @ '' after signal completed.\<newline>'')]
               \<notin> set new))
   \<and> (''sync_test_user'' \<in> set (users w) \<longrightarrow>
        test_synchronous_signal w =
          (Inl IntegrityError,
           w\<lparr>out := out w @ [[S ''\<newline>=== Test 1: Synchronous Signal ===''],
                             [S ''Creating user...'']]\<rparr>))
   \<and> (fst (test_synchronous_signal w) = Inr () \<longrightarrow>
        fst (test_synchronous_signal (snd (test_synchronous_signal w))) = Inl IntegrityError)"
proof -
  have a: "test_synchronous_signal w = (Inl e, w')"
    if "User_objects_create ''sync_test_user''
          (py_print [S ''Creating user...'']
             (py_print [S ''\<newline>=== Test 1: Synchronous Signal ===''] w)) = (Inl e, w')"
    using that by (simp add: test_synchronous_signal_def and_then_def)
  have b: "\<exists>new. out (snd (test_synchronous_signal w)) = out w @ new
           \<and> [S (''User created successfully '' @ em_dash @ '' after signal completed.\<newline>'')]
               \<notin> set new"
    if err: "fst (test_synchronous_signal w) = Inl e"
  proof (cases "''sync_test_user'' \<in> set (users w)")
    case True
    then show ?thesis by (simp add: test1_existing_user)
  next
    case False
    note nu = False
    show ?thesis
    proof (cases "''sync_test_user'' \<in> set (profiles w)")
      case True
      with nu show ?thesis by (simp add: test1_existing_profile)
    next
      case False
      with nu err show ?thesis by (simp add: test1_fresh)
    qed
  qed
  have d: "fst (test_synchronous_signal (snd (test_synchronous_signal w))) = Inl IntegrityError"
    if ok: "fst (test_synchronous_signal w) = Inr ()"
  proof -
    from ok have nu: "''sync_test_user'' \<notin> set (users w)"
      and np: "''sync_test_user'' \<notin> set (profiles w)"
      by (simp_all add: test1_ok_iff)
    have "''sync_test_user'' \<in> set (users (snd (test_synchronous_signal w)))"
      by (simp add: test1_fresh [OF nu np])
    then show ?thesis by (simp add: test1_existing_user)
  qed
  from a b d test1_existing_user [of w] show ?thesis by blast
qed

theorem test_synchronous_signal_errors_propagate_witness:
  "fst (test_synchronous_signal
          \<lparr>users = [], profiles = [], out = [], clock = 0, thread = 1, objects = []\<rparr>) = Inr ()
   \<and> fst (test_synchronous_signal (snd (test_synchronous_signal
          \<lparr>users = [], profiles = [], out = [], clock = 0, thread = 1, objects = []\<rparr>)))
       = Inl IntegrityError
   \<and> ''sync_test_user'' \<in> set (users
          \<lparr>users = [''sync_test_user''], profiles = [], out = [], clock = 0, thread = 1, objects = []\<rparr>)
   \<and> test_synchronous_signal
          \<lparr>users = [''sync_test_user''], profiles = [], out = [], clock = 0, thread = 1, objects = []\<rparr>
       = (Inl IntegrityError,
          \<lparr>users = [''sync_test_user''], profiles = [],
             out = [[S ''\<newline>=== Test 1: Synchronous Signal ===''], [S ''Creating user...'']],
             clock = 0, thread = 1, objects = []\<rparr>)"
  using test_synchronous_signal_errors_propagate
      [of "\<lparr>users = [], profiles = [], out = [], clock = 0, thread = 1, objects = []\<rparr>"]
    test_synchronous_signal_errors_propagate
      [of "\<lparr>users = [''sync_test_user''], profiles = [], out = [], clock = 0, thread = 1, objects = []\<rparr>"]
  by (simp add: test1_ok_iff)

lemma test2_users_mono: "set (users w) \<subseteq> set (users (snd (test_thread_signal w)))"
proof (cases "''thread_test_user'' \<in> set (users w)")
  case True
  then show ?thesis by (simp add: test2_existing_user)
next
  case False
  then show ?thesis
    by (cases "''thread_test_user'' \<in> set (profiles w)")
       (auto simp: test2_existing_profile test2_fresh)
qed

lemma test4_users: "users (snd (test_rectangle_iteration w)) = users w"
  by (simp add: test4_result)

lemma test4_returns: "fst (test_rectangle_iteration w) = Inr ()"
  by (simp add: test4_result)

lemma and_then_Inl: "fst m = Inl e \<Longrightarrow> and_then m f = (Inl e, snd m)"
  by (cases m) (simp add: and_then_def)

lemma and_then_Inr: "fst m = Inr v \<Longrightarrow> and_then m f = f v (snd m)"
  by (cases m) (simp add: and_then_def)

lemma result_eq: "fst m = x \<Longrightarrow> (x, snd m) = m"
  by (cases m) simp

text \<open>
  Claim C6. \<^verbatim>\<open>run_all_tests\<close> calls the four tests in the order of lines 87 to 90 and
  nothing else. The tests take no argument and return no value, so nothing is handed from
  one to the next; each starts in the data store and console the previous one left. There
  is no handler between them: when the first test raises, the driver ends with that
  exception and the world of the first test (no later test has run); likewise for the
  second; when both return, the result is that of the rectangle test run after the
  transaction test, and it is normal completion. A second run after a complete one stops
  in the first test with the uniqueness violation, after two printed lines.
\<close>

theorem run_all_tests_runs_four_tests_in_order:
  "(fst (test_synchronous_signal w) = Inl e \<longrightarrow>
      run_all_tests joined w = test_synchronous_signal w)
   \<and> (fst (test_synchronous_signal w) = Inr ()
        \<and> fst (test_thread_signal (snd (test_synchronous_signal w))) = Inl e \<longrightarrow>
      run_all_tests joined w = test_thread_signal (snd (test_synchronous_signal w)))
   \<and> (fst (test_synchronous_signal w) = Inr ()
        \<and> fst (test_thread_signal (snd (test_synchronous_signal w))) = Inr () \<longrightarrow>
      run_all_tests joined w =
        test_rectangle_iteration
          (snd (test_transaction_signal joined
             (snd (test_thread_signal (snd (test_synchronous_signal w))))))
      \<and> fst (run_all_tests joined w) = Inr ())
   \<and> (fst (run_all_tests joined w) = Inr () \<longrightarrow>
      run_all_tests joined (snd (run_all_tests joined w)) =
        (Inl IntegrityError,
         py_print [S ''Creating user...'']
           (py_print [S ''\<newline>=== Test 1: Synchronous Signal ===''] (snd (run_all_tests joined w)))))"
proof -
  let ?t1 = "test_synchronous_signal w"
  let ?t2 = "test_thread_signal (snd ?t1)"
  let ?t3 = "test_transaction_signal joined (snd ?t2)"
  let ?t4 = "test_rectangle_iteration (snd ?t3)"
  have c1: "run_all_tests joined w = ?t1" if "fst ?t1 = Inl e"
    using that by (simp add: run_all_tests_def and_then_Inl result_eq)
  have c2: "run_all_tests joined w = ?t2" if "fst ?t1 = Inr ()" and "fst ?t2 = Inl e"
    using that by (simp add: run_all_tests_def and_then_Inr and_then_Inl result_eq)
  have c3: "run_all_tests joined w = ?t4" if "fst ?t1 = Inr ()" and "fst ?t2 = Inr ()"
    using that test3_returns [of joined "snd ?t2"]
    by (simp add: run_all_tests_def and_then_Inr)
  have c3': "fst (run_all_tests joined w) = Inr ()" if "fst ?t1 = Inr ()" and "fst ?t2 = Inr ()"
    using c3 [OF that] by (simp add: test4_returns)
  have c4: "run_all_tests joined (snd (run_all_tests joined w)) =
        (Inl IntegrityError,
         py_print [S ''Creating user...'']
           (py_print [S ''\<newline>=== Test 1: Synchronous Signal ===''] (snd (run_all_tests joined w))))"
    if ok: "fst (run_all_tests joined w) = Inr ()"
  proof -
    have ok1: "fst ?t1 = Inr ()"
    proof (cases "fst ?t1")
      case (Inl x)
      have "run_all_tests joined w = ?t1"
        using Inl by (simp add: run_all_tests_def and_then_Inl result_eq)
      with ok Inl show ?thesis by simp
    next
      case (Inr u)
      then show ?thesis by simp
    qed
    have ok2: "fst ?t2 = Inr ()"
    proof (cases "fst ?t2")
      case (Inl x)
      have "run_all_tests joined w = ?t2"
        using ok1 Inl by (simp add: run_all_tests_def and_then_Inr and_then_Inl result_eq)
      with ok Inl show ?thesis by simp
    next
      case (Inr u)
      then show ?thesis by simp
    qed
    have r: "run_all_tests joined w = ?t4" using ok1 ok2 by (rule c3)
    from ok1 have "''sync_test_user'' \<in> set (users (snd ?t1))"
      by (simp add: test1_ok_iff test1_fresh)
    then have "''sync_test_user'' \<in> set (users (snd ?t2))"
      using test2_users_mono [of "snd ?t1"] by blast
    then have "''sync_test_user'' \<in> set (users (snd ?t4))"
      by (simp add: test4_users test3_users)
    then have u: "''sync_test_user'' \<in> set (users (snd (run_all_tests joined w)))"
      by (simp only: r)
    have "test_synchronous_signal (snd (run_all_tests joined w)) =
            (Inl IntegrityError,
             py_print [S ''Creating user...'']
               (py_print [S ''\<newline>=== Test 1: Synchronous Signal ===''] (snd (run_all_tests joined w))))"
      using u by (simp add: test1_existing_user py_print_def)
    then show ?thesis
      by (simp add: run_all_tests_def and_then_def)
  qed
  from c1 c2 c3 c3' c4 show ?thesis by blast
qed

theorem run_all_tests_runs_four_tests_in_order_witness:
  "fst (run_all_tests True
          \<lparr>users = [], profiles = [], out = [], clock = 0, thread = 1, objects = []\<rparr>) = Inr ()
   \<and> fst (run_all_tests True (snd (run_all_tests True
          \<lparr>users = [], profiles = [], out = [], clock = 0, thread = 1, objects = []\<rparr>)))
       = Inl IntegrityError
   \<and> fst (test_synchronous_signal
          \<lparr>users = [''sync_test_user''], profiles = [], out = [], clock = 0, thread = 1, objects = []\<rparr>)
       = Inl IntegrityError
   \<and> run_all_tests True
          \<lparr>users = [''sync_test_user''], profiles = [], out = [], clock = 0, thread = 1, objects = []\<rparr>
       = test_synchronous_signal
          \<lparr>users = [''sync_test_user''], profiles = [], out = [], clock = 0, thread = 1, objects = []\<rparr>
   \<and> fst (test_synchronous_signal
          \<lparr>users = [''thread_test_user''], profiles = [], out = [], clock = 0, thread = 1, objects = []\<rparr>)
       = Inr ()
   \<and> fst (test_thread_signal (snd (test_synchronous_signal
          \<lparr>users = [''thread_test_user''], profiles = [], out = [], clock = 0, thread = 1, objects = []\<rparr>)))
       = Inl IntegrityError
   \<and> run_all_tests True
          \<lparr>users = [''thread_test_user''], profiles = [], out = [], clock = 0, thread = 1, objects = []\<rparr>
       = test_thread_signal (snd (test_synchronous_signal
          \<lparr>users = [''thread_test_user''], profiles = [], out = [], clock = 0, thread = 1, objects = []\<rparr>))"
proof -
  let ?W = "\<lparr>users = [], profiles = [], out = [], clock = 0, thread = 1, objects = []\<rparr>"
  let ?W1 = "\<lparr>users = [''sync_test_user''], profiles = [], out = [], clock = 0, thread = 1, objects = []\<rparr>"
  let ?W2 = "\<lparr>users = [''thread_test_user''], profiles = [], out = [], clock = 0, thread = 1, objects = []\<rparr>"
  note t = run_all_tests_runs_four_tests_in_order [of ?W IntegrityError True]
  note t1 = run_all_tests_runs_four_tests_in_order [of ?W1 IntegrityError True]
  note t2 = run_all_tests_runs_four_tests_in_order [of ?W2 IntegrityError True]
  have ok1: "fst (test_synchronous_signal ?W) = Inr ()"
    by (simp add: test1_ok_iff)
  have ok2: "fst (test_thread_signal (snd (test_synchronous_signal ?W))) = Inr ()"
    by (simp add: test2_ok_iff test1_fresh)
  from t ok1 ok2 have a: "fst (run_all_tests True ?W) = Inr ()" by blast
  from t a have "run_all_tests True (snd (run_all_tests True ?W)) =
        (Inl IntegrityError,
         py_print [S ''Creating user...'']
           (py_print [S ''\<newline>=== Test 1: Synchronous Signal ===''] (snd (run_all_tests True ?W))))"
    by blast
  then have b: "fst (run_all_tests True (snd (run_all_tests True ?W))) = Inl IntegrityError"
    by simp
  have c: "fst (test_synchronous_signal ?W1) = Inl IntegrityError"
    by (simp add: test1_existing_user)
  from t1 c have c': "run_all_tests True ?W1 = test_synchronous_signal ?W1" by blast
  have d: "fst (test_synchronous_signal ?W2) = Inr ()"
    by (simp add: test1_ok_iff)
  have e: "fst (test_thread_signal (snd (test_synchronous_signal ?W2))) = Inl IntegrityError"
    by (simp add: test1_fresh test2_existing_user)
  from t2 d e have e': "run_all_tests True ?W2 = test_thread_signal (snd (test_synchronous_signal ?W2))"
    by blast
  from a b c c' d e e' show ?thesis by (intro conjI)
qed

lemma test1_prints_header:
  "\<exists>rest. out (snd (test_synchronous_signal w)) =
            out w @ [S ''\<newline>=== Test 1: Synchronous Signal ===''] # rest"
proof (cases "''sync_test_user'' \<in> set (users w)")
  case True
  then show ?thesis by (simp add: test1_existing_user)
next
  case False
  then show ?thesis
    by (cases "''sync_test_user'' \<in> set (profiles w)")
       (simp_all add: test1_existing_profile test1_fresh)
qed

lemma test2_prints_header:
  "\<exists>rest. out (snd (test_thread_signal w)) =
            out w @ [S ''\<newline>=== Test 2: Thread Check ===''] # rest"
proof (cases "''thread_test_user'' \<in> set (users w)")
  case True
  then show ?thesis by (simp add: test2_existing_user)
next
  case False
  then show ?thesis
    by (cases "''thread_test_user'' \<in> set (profiles w)")
       (simp_all add: test2_existing_profile test2_fresh)
qed

lemma test3_prints_header:
  "\<exists>rest. out (snd (test_transaction_signal joined w)) =
            out w @ [S ''\<newline>=== Test 3: Transaction Behavior ===''] # rest"
proof (cases "''rollback_user'' \<in> set (users w)")
  case True
  then show ?thesis by (simp add: test3_existing_user)
next
  case False
  then show ?thesis
    by (cases "''rollback_user'' \<in> set (profiles w)")
       (simp_all add: test3_existing_profile test3_fresh)
qed

lemma test4_prints_header:
  "\<exists>rest. out (snd (test_rectangle_iteration w)) =
            out w @ [S ''\<newline>=== Test 4: Custom Rectangle Class ===''] # rest"
  by (simp add: test4_result)

text \<open>
  The block of lines 93 to 97, once it is reached: it prints the four usage lines and
  leaves the tables and the heap as they are. Each test function prints its header as
  soon as it is called, and no header is among the lines the block printed.
\<close>

lemma main_block_only_prints_usage:
  "main_block ''__main__'' w =
     (Inr (),
      w\<lparr>out := out w @ [[S ''>>> Django Signals and Python Custom Class Tests <<<''],
                        [S ''Run these functions individually inside Django shell:\<newline>''],
                        [S ''    from yourapp.django_signal_tests import run_all_tests''],
                        [S ''    run_all_tests()\<newline>'']]\<rparr>)
   \<and> users (snd (main_block ''__main__'' w)) = users w
   \<and> profiles (snd (main_block ''__main__'' w)) = profiles w
   \<and> objects (snd (main_block ''__main__'' w)) = objects w
   \<and> [S ''\<newline>=== Test 1: Synchronous Signal ==='']
        \<notin> set (drop (length (out w)) (out (snd (main_block ''__main__'' w))))
   \<and> [S ''\<newline>=== Test 2: Thread Check ==='']
        \<notin> set (drop (length (out w)) (out (snd (main_block ''__main__'' w))))
   \<and> [S ''\<newline>=== Test 3: Transaction Behavior ==='']
        \<notin> set (drop (length (out w)) (out (snd (main_block ''__main__'' w))))
   \<and> [S ''\<newline>=== Test 4: Custom Rectangle Class ==='']
        \<notin> set (drop (length (out w)) (out (snd (main_block ''__main__'' w))))
   \<and> [S ''\<newline>=== Test 1: Synchronous Signal ==='']
        \<in> set (drop (length (out v)) (out (snd (test_synchronous_signal v))))
   \<and> [S ''\<newline>=== Test 2: Thread Check ==='']
        \<in> set (drop (length (out v)) (out (snd (test_thread_signal v))))
   \<and> [S ''\<newline>=== Test 3: Transaction Behavior ==='']
        \<in> set (drop (length (out v)) (out (snd (test_transaction_signal joined v))))
   \<and> [S ''\<newline>=== Test 4: Custom Rectangle Class ==='']
        \<in> set (drop (length (out v)) (out (snd (test_rectangle_iteration v))))"
proof -
  have m: "main_block ''__main__'' w =
     (Inr (),
      w\<lparr>out := out w @ [[S ''>>> Django Signals and Python Custom Class Tests <<<''],
                        [S ''Run these functions individually inside Django shell:\<newline>''],
                        [S ''    from yourapp.django_signal_tests import run_all_tests''],
                        [S ''    run_all_tests()\<newline>'']]\<rparr>)"
    by (simp add: main_block_def py_print_def)
  have h1: "[S ''\<newline>=== Test 1: Synchronous Signal ==='']
        \<in> set (drop (length (out v)) (out (snd (test_synchronous_signal v))))"
    using test1_prints_header [of v] by auto
  have h2: "[S ''\<newline>=== Test 2: Thread Check ==='']
        \<in> set (drop (length (out v)) (out (snd (test_thread_signal v))))"
    using test2_prints_header [of v] by auto
  have h3: "[S ''\<newline>=== Test 3: Transaction Behavior ==='']
        \<in> set (drop (length (out v)) (out (snd (test_transaction_signal joined v))))"
    using test3_prints_header [of joined v] by auto
  have h4: "[S ''\<newline>=== Test 4: Custom Rectangle Class ==='']
        \<in> set (drop (length (out v)) (out (snd (test_rectangle_iteration v))))"
    using test4_prints_header [of v] by auto
  show ?thesis
    by (simp only: m h1 h2 h3 h4) simp
qed

lemma in_app_main: "in_app ''__main__'' app \<longleftrightarrow> app = ''__main__''"
proof
  assume "in_app ''__main__'' app"
  then consider "''__main__'' = app" | "take (length app + 1) ''__main__'' = app @ ''.''"
    by (auto simp: in_app_def)
  then show "app = ''__main__''"
  proof cases
    case 1
    then show ?thesis by simp
  next
    case 2
    have "CHR ''.'' \<in> set (app @ ''.'')" by simp
    then have "CHR ''.'' \<in> set (take (length app + 1) ''__main__'')" by (simp only: 2)
    then have "CHR ''.'' \<in> set ''__main__''" by (rule in_set_takeD)
    then show ?thesis by simp
  qed
next
  assume "app = ''__main__''"
  then show "in_app ''__main__'' app" by (simp add: in_app_def)
qed

lemma class_Profile_main:
  "class_Profile env ''__main__'' =
     (if ''__main__'' \<in> set (installed_apps env) then Inr () else Inl RuntimeError)"
  by (simp add: class_Profile_def list_ex_iff in_app_main)

text \<open>
  Claim C8. The claim has the module, run as the main program, print the usage
  instructions, call no test function and create no record. The block of lines 93 to 97
  is written to do so, but the program does not get there: run with settings that are
  not configured it stops at line 12 with \<^verbatim>\<open>ImproperlyConfigured\<close>; with settings but no
  populated registry it stops at line 12 with \<^verbatim>\<open>AppRegistryNotReady\<close>; with a populated
  registry and the module in an application \<^verbatim>\<open>yourapp\<close> it stops at line 44 with
  \<^verbatim>\<open>RuntimeError\<close>, since the class \<^verbatim>\<open>Profile\<close> then stands in the module \<^verbatim>\<open>__main__\<close>. In
  each case nothing is printed and the world is unchanged. The program completes exactly
  when the settings are configured, the registry is populated, and both
  \<^verbatim>\<open>django.contrib.auth\<close> and an application named \<^verbatim>\<open>__main__\<close> are installed; then it
  prints the four usage lines.
\<close>

theorem direct_execution_stops_before_usage:
  "run_module \<lparr>settings_configured = False, apps_ready = False, installed_apps = []\<rparr>
       ''__main__'' w = (Inl ImproperlyConfigured, w)
   \<and> run_module \<lparr>settings_configured = True, apps_ready = False,
                  installed_apps = [''django.contrib.auth'', ''yourapp'']\<rparr>
       ''__main__'' w = (Inl AppRegistryNotReady, w)
   \<and> run_module \<lparr>settings_configured = True, apps_ready = True,
                  installed_apps = [''django.contrib.auth'', ''yourapp'']\<rparr>
       ''__main__'' w = (Inl RuntimeError, w)
   \<and> (fst (run_module env ''__main__'' w) = Inr () \<longleftrightarrow>
        settings_configured env \<and> apps_ready env
        \<and> ''django.contrib.auth'' \<in> set (installed_apps env)
        \<and> ''__main__'' \<in> set (installed_apps env))
   \<and> run_module \<lparr>settings_configured = True, apps_ready = True,
                  installed_apps = [''django.contrib.auth'', ''__main__'']\<rparr>
       ''__main__'' w =
         (Inr (),
          w\<lparr>out := out w @ [[S ''>>> Django Signals and Python Custom Class Tests <<<''],
                            [S ''Run these functions individually inside Django shell:\<newline>''],
                            [S ''    from yourapp.django_signal_tests import run_all_tests''],
                            [S ''    run_all_tests()\<newline>'']]\<rparr>)"
proof -
  have a: "run_module \<lparr>settings_configured = False, apps_ready = False, installed_apps = []\<rparr>
       ''__main__'' w = (Inl ImproperlyConfigured, w)"
    by (simp add: run_module_def import_User_def)
  have b: "run_module \<lparr>settings_configured = True, apps_ready = False,
                  installed_apps = [''django.contrib.auth'', ''yourapp'']\<rparr>
       ''__main__'' w = (Inl AppRegistryNotReady, w)"
    by (simp add: run_module_def import_User_def)
  have c: "run_module \<lparr>settings_configured = True, apps_ready = True,
                  installed_apps = [''django.contrib.auth'', ''yourapp'']\<rparr>
       ''__main__'' w = (Inl RuntimeError, w)"
    by (simp add: run_module_def import_User_def class_Profile_main)
  have d: "fst (run_module env ''__main__'' w) = Inr () \<longleftrightarrow>
        settings_configured env \<and> apps_ready env
        \<and> ''django.contrib.auth'' \<in> set (installed_apps env)
        \<and> ''__main__'' \<in> set (installed_apps env)"
    by (simp add: run_module_def import_User_def class_Profile_main main_block_def)
  have e: "run_module \<lparr>settings_configured = True, apps_ready = True,
                  installed_apps = [''django.contrib.auth'', ''__main__'']\<rparr>
       ''__main__'' w =
         (Inr (),
          w\<lparr>out := out w @ [[S ''>>> Django Signals and Python Custom Class Tests <<<''],
                            [S ''Run these functions individually inside Django shell:\<newline>''],
                            [S ''    from yourapp.django_signal_tests import run_all_tests''],
                            [S ''    run_all_tests()\<newline>'']]\<rparr>)"
    by (simp add: run_module_def import_User_def class_Profile_main main_block_def py_print_def)
  from a b c d e show ?thesis by (intro conjI)
qed

text \<open>
  Claim C2. On a data store that has no user and no profile for \<^verbatim>\<open>rollback_user\<close> yet,
  after one run of \<^verbatim>\<open>test_transaction_signal\<close> the number of profile rows that refer to
  \<^verbatim>\<open>rollback_user\<close> is 0 if and only if the write of \<^verbatim>\<open>create_profile\<close> belonged to the
  transaction that was rolled back. The script reads this off after the block has exited:
  the line before the last one printed carries \<^verbatim>\<open>Profile.objects.count()\<close> of the final
  store.
\<close>

theorem rollback_probe_discriminates:
  "''rollback_user'' \<notin> set (users w) \<and> ''rollback_user'' \<notin> set (profiles w) \<longrightarrow>
     (count_list (profiles (snd (test_transaction_signal joined w))) ''rollback_user'' = 0
        \<longleftrightarrow> joined)
     \<and> profiles (snd (test_transaction_signal joined w)) =
         (if joined then profiles w else profiles w @ [''rollback_user''])
     \<and> last (butlast (out (snd (test_transaction_signal joined w)))) =
         [S ''Profiles in DB after rollback:'',
          N (Profile_objects_count (snd (test_transaction_signal joined w)))]"
proof
  assume h: "''rollback_user'' \<notin> set (users w) \<and> ''rollback_user'' \<notin> set (profiles w)"
  then have nu: "''rollback_user'' \<notin> set (users w)" and np: "''rollback_user'' \<notin> set (profiles w)"
    by simp_all
  have z: "count_list (profiles w) ''rollback_user'' = 0"
    using np by (simp add: count_list_0_iff)
  show "(count_list (profiles (snd (test_transaction_signal joined w))) ''rollback_user'' = 0
        \<longleftrightarrow> joined)
     \<and> profiles (snd (test_transaction_signal joined w)) =
         (if joined then profiles w else profiles w @ [''rollback_user''])
     \<and> last (butlast (out (snd (test_transaction_signal joined w)))) =
         [S ''Profiles in DB after rollback:'',
          N (Profile_objects_count (snd (test_transaction_signal joined w)))]"
    using z by (simp add: test3_fresh [OF nu np] Profile_objects_count_def butlast_append)
qed

theorem rollback_probe_discriminates_witness:
  "''rollback_user'' \<notin> set (users \<lparr>users = [], profiles = [], out = [], clock = 0, thread = 1, objects = []\<rparr>)
   \<and> ''rollback_user'' \<notin> set (profiles \<lparr>users = [], profiles = [], out = [], clock = 0, thread = 1, objects = []\<rparr>)
   \<and> profiles (snd (test_transaction_signal True
         \<lparr>users = [], profiles = [], out = [], clock = 0, thread = 1, objects = []\<rparr>)) = []
   \<and> profiles (snd (test_transaction_signal False
         \<lparr>users = [], profiles = [], out = [], clock = 0, thread = 1, objects = []\<rparr>))
       = [''rollback_user'']"
  using rollback_probe_discriminates
      [of "\<lparr>users = [], profiles = [], out = [], clock = 0, thread = 1, objects = []\<rparr>" True]
    rollback_probe_discriminates
      [of "\<lparr>users = [], profiles = [], out = [], clock = 0, thread = 1, objects = []\<rparr>" False]
  by simp

text \<open>
  Claim C10. The handler of line 60 is not specific to the forced exception. In every
  world the transactional block raises, and what it raises derives from \<^verbatim>\<open>Exception\<close>, so
  the handler takes it. When the creation of the user raises (the username exists), and
  when the receiver \<^verbatim>\<open>create_profile\<close> raises (a profile for that user exists), the
  exception is caught and printed, and the function goes on to print the count of
  profiles and the interpretation, and completes normally.
\<close>

theorem handler_catches_creation_and_callback_errors:
  "(case fst (rollback_block joined w) of Inl e \<Rightarrow> is_Exception e | Inr u \<Rightarrow> False)
   \<and> (''rollback_user'' \<in> set (users w) \<longrightarrow>
        fst (User_objects_create ''rollback_user''
               (py_print [S ''\<newline>=== Test 3: Transaction Behavior ===''] w)) = Inl IntegrityError
        \<and> test_transaction_signal joined w =
            (Inr (),
             w\<lparr>out := out w @ [[S ''\<newline>=== Test 3: Transaction Behavior ===''],
                               [S ''[Main] Exception caught:'', E IntegrityError],
                               [S ''Profiles in DB after rollback:'', N (int (length (profiles w)))],
                               [S (''If 0 '' @ rightwards_arrow @ '' Signal ran in same transaction.\<newline>'')]]\<rparr>))
   \<and> (''rollback_user'' \<notin> set (users w) \<and> ''rollback_user'' \<in> set (profiles w) \<longrightarrow>
        fst (create_profile ''rollback_user'' w) = Inl IntegrityError
        \<and> test_transaction_signal joined w =
            (Inr (),
             w\<lparr>out := out w @ [[S ''\<newline>=== Test 3: Transaction Behavior ===''],
                               [S ''[Signal] Started processing...''],
                               [S ''[Signal] Finished processing.''],
                               [S ''[Signal] Thread ID: '', N (thread w)],
                               [S ''[Main] Exception caught:'', E IntegrityError],
                               [S ''Profiles in DB after rollback:'', N (int (length (profiles w)))],
                               [S (''If 0 '' @ rightwards_arrow @ '' Signal ran in same transaction.\<newline>'')]],
               clock := clock w + 3\<rparr>))"
proof -
  have a: "fst (User_objects_create ''rollback_user''
               (py_print [S ''\<newline>=== Test 3: Transaction Behavior ===''] w)) = Inl IntegrityError"
    if "''rollback_user'' \<in> set (users w)"
    using that by (simp add: create_existing_user py_print_def)
  have b: "fst (create_profile ''rollback_user'' w) = Inl IntegrityError"
    if "''rollback_user'' \<in> set (profiles w)"
    using that by (simp add: create_profile_def Profile_objects_create_def and_then_def)
  show ?thesis
    using block_raises_Exception [of joined w] a b
      test3_existing_user [of w joined] test3_existing_profile [of w joined]
    by blast
qed

theorem handler_catches_creation_and_callback_errors_witness:
  "''rollback_user'' \<in> set (users
      \<lparr>users = [''rollback_user''], profiles = [], out = [], clock = 0, thread = 1, objects = []\<rparr>)
   \<and> fst (test_transaction_signal True
      \<lparr>users = [''rollback_user''], profiles = [], out = [], clock = 0, thread = 1, objects = []\<rparr>)
      = Inr ()
   \<and> ''rollback_user'' \<notin> set (users
      \<lparr>users = [], profiles = [''rollback_user''], out = [], clock = 0, thread = 1, objects = []\<rparr>)
   \<and> ''rollback_user'' \<in> set (profiles
      \<lparr>users = [], profiles = [''rollback_user''], out = [], clock = 0, thread = 1, objects = []\<rparr>)
   \<and> fst (test_transaction_signal True
      \<lparr>users = [], profiles = [''rollback_user''], out = [], clock = 0, thread = 1, objects = []\<rparr>)
      = Inr ()"
  using handler_catches_creation_and_callback_errors
      [of True "\<lparr>users = [''rollback_user''], profiles = [], out = [], clock = 0, thread = 1, objects = []\<rparr>"]
    handler_catches_creation_and_callback_errors
      [of True "\<lparr>users = [], profiles = [''rollback_user''], out = [], clock = 0, thread = 1, objects = []\<rparr>"]
  by simp

end
